theory Spec2Isabelle
  imports Main "HOL-Library.Word" "HOL-Library.Monad_Syntax"
begin

unbundle bit_operations_syntax

section \<open>Data model\<close>

text \<open>
  The structures of \<^verbatim>\<open>tls/s2n_kem.h\<close>, \<^verbatim>\<open>tls/s2n_ecc_preferences.h\<close>,
  \<^verbatim>\<open>tls/s2n_kem_preferences.h\<close> and \<^verbatim>\<open>tls/s2n_security_policies.h\<close> as far as the
  functions modelled here read their fields.  A pointer that may be \<^verbatim>\<open>NULL\<close> is an
  \<open>option\<close>; an array together with its count field is a list together with a number, and
  the two are not assumed to agree; an array pointer that is \<^verbatim>\<open>NULL\<close> is the empty list.
  The counts and the draft revision are \<^verbatim>\<open>uint8_t\<close> and never computed with, so they
  are natural numbers.  The \<^verbatim>\<open>curve\<close> and \<^verbatim>\<open>kem\<close> of a KEM group point to global
  constants and are only ever compared; such a pointer is the identity of the constant, one
  of the curves and KEMs that section 4.1 of the specification lists.
\<close>

datatype ecc_curve_id = Secp256r1 | Secp384r1 | Secp521r1 | X25519

datatype kem_id = Kyber_512_r3 | Kyber_768_r3 | Kyber_1024_r3 | Mlkem_768 | Mlkem_1024

record s2n_ecc_named_curve =
  ecc_iana_id :: "16 word"
  ecc_name :: string

record s2n_kem_group =
  name :: string
  iana_id :: "16 word"
  curve :: ecc_curve_id
  kem :: kem_id

record s2n_kem_preferences =
  tls13_kem_group_count :: nat
  tls13_kem_groups :: "s2n_kem_group option list"
  tls13_pq_hybrid_draft_revision :: nat

record s2n_ecc_preferences =
  count :: nat
  ecc_curves :: "s2n_ecc_named_curve option list"

record s2n_security_policy =
  kem_preferences :: "s2n_kem_preferences option"
  ecc_preferences :: "s2n_ecc_preferences option"

text \<open>
  What C leaves undefined is a value of its own: reading an array past its end, and reading
  a field through a \<^verbatim>\<open>NULL\<close> pointer that no \<^verbatim>\<open>PTR_ENSURE_REF\<close> guards.
\<close>

datatype fault = Out_Of_Bounds | Null_Dereference

definition array_read :: "'a list \<Rightarrow> nat \<Rightarrow> fault + 'a" where
  "array_read xs i = (if i < length xs then Inr (xs ! i) else Inl Out_Of_Bounds)"

text \<open>
  A loop body either leaves the enclosing function with a value (\<^verbatim>\<open>return\<close>) or the
  loop runs to its end.
\<close>

datatype 'a flow = Return 'a | Fell_Through

section \<open>The prediction functions of the handshake test\<close>

subsection \<open>\<^verbatim>\<open>s2n_get_predicted_negotiated_kem_group\<close>\<close>

text \<open>
  \<^verbatim>\<open>s2n_kem_group_is_available\<close> is declared outside the sources, so the predictor takes it
  as the parameter \<open>is_available\<close>.  The first loop (source lines 40 to 48) compares the
  client's default group with each server group; \<^verbatim>\<open>PTR_ENSURE_REF(server_group)\<close> returns
  \<^verbatim>\<open>NULL\<close> from the function.
\<close>

function kem_default_loop ::
  "(s2n_kem_group \<Rightarrow> bool) \<Rightarrow> s2n_kem_group \<Rightarrow> s2n_kem_preferences \<Rightarrow> nat
     \<Rightarrow> fault + s2n_kem_group option flow" where
  "kem_default_loop is_available client_default server_prefs i =
     (if i < tls13_kem_group_count server_prefs then
        (case array_read (tls13_kem_groups server_prefs) i of
           Inl f \<Rightarrow> Inl f
         | Inr None \<Rightarrow> Inr (Return None)
         | Inr (Some server_group) \<Rightarrow>
             if is_available client_default \<and> is_available server_group
                \<and> iana_id client_default = iana_id server_group
                \<and> is_available client_default
             then Inr (Return (Some client_default))
             else kem_default_loop is_available client_default server_prefs (Suc i))
      else Inr Fell_Through)"
  by pat_completeness auto
termination
  by (relation "measure (\<lambda>(a, d, sp, i). tls13_kem_group_count sp - i)") auto

text \<open>
  The inner loop of the second pass (source lines 56 to 65) starts at \<open>j = 1\<close>; both
  \<^verbatim>\<open>PTR_ENSURE_REF\<close> checks sit inside it, the client's first.
\<close>

function kem_client_loop ::
  "(s2n_kem_group \<Rightarrow> bool) \<Rightarrow> s2n_kem_group option \<Rightarrow> s2n_kem_preferences \<Rightarrow> nat
     \<Rightarrow> fault + s2n_kem_group option flow" where
  "kem_client_loop is_available server_group client_prefs j =
     (if j < tls13_kem_group_count client_prefs then
        (case array_read (tls13_kem_groups client_prefs) j of
           Inl f \<Rightarrow> Inl f
         | Inr None \<Rightarrow> Inr (Return None)
         | Inr (Some client_group) \<Rightarrow>
             (case server_group of
                None \<Rightarrow> Inr (Return None)
              | Some sg \<Rightarrow>
                  if is_available client_group \<and> is_available sg
                     \<and> iana_id client_group = iana_id sg
                     \<and> is_available client_group
                  then Inr (Return (Some client_group))
                  else kem_client_loop is_available server_group client_prefs (Suc j)))
      else Inr Fell_Through)"
  by pat_completeness auto
termination
  by (relation "measure (\<lambda>(a, sg, cp, j). tls13_kem_group_count cp - j)") auto

function kem_server_loop ::
  "(s2n_kem_group \<Rightarrow> bool) \<Rightarrow> s2n_kem_preferences \<Rightarrow> s2n_kem_preferences \<Rightarrow> nat
     \<Rightarrow> fault + s2n_kem_group option flow" where
  "kem_server_loop is_available client_prefs server_prefs i =
     (if i < tls13_kem_group_count server_prefs then
        (case array_read (tls13_kem_groups server_prefs) i of
           Inl f \<Rightarrow> Inl f
         | Inr server_group \<Rightarrow>
             (case kem_client_loop is_available server_group client_prefs 1 of
                Inl f \<Rightarrow> Inl f
              | Inr (Return r) \<Rightarrow> Inr (Return r)
              | Inr Fell_Through \<Rightarrow>
                  kem_server_loop is_available client_prefs server_prefs (Suc i)))
      else Inr Fell_Through)"
  by pat_completeness auto
termination
  by (relation "measure (\<lambda>(a, cp, sp, i). tls13_kem_group_count sp - i)") auto

definition s2n_get_predicted_negotiated_kem_group ::
  "(s2n_kem_group \<Rightarrow> bool) \<Rightarrow> s2n_kem_preferences option \<Rightarrow> s2n_kem_preferences option
     \<Rightarrow> fault + s2n_kem_group option" where
  "s2n_get_predicted_negotiated_kem_group is_available client_prefs server_prefs =
     (case client_prefs of
        None \<Rightarrow> Inr None
      | Some cp \<Rightarrow>
     (case server_prefs of
        None \<Rightarrow> Inr None
      | Some sp \<Rightarrow>
     (case array_read (tls13_kem_groups cp) 0 of
        Inl f \<Rightarrow> Inl f
      | Inr None \<Rightarrow> Inr None
      | Inr (Some client_default) \<Rightarrow>
     (case kem_default_loop is_available client_default sp 0 of
        Inl f \<Rightarrow> Inl f
      | Inr (Return r) \<Rightarrow> Inr r
      | Inr Fell_Through \<Rightarrow>
     (case kem_server_loop is_available cp sp 0 of
        Inl f \<Rightarrow> Inl f
      | Inr (Return r) \<Rightarrow> Inr r
      | Inr Fell_Through \<Rightarrow> Inr None)))))"

text \<open>
  The preference structures of the test are all written with
  \<^verbatim>\<open>.tls13_kem_group_count = s2n_array_len(groups), .tls13_kem_groups = groups\<close> over an
  array of addresses of groups; \<open>kem_prefs_of\<close> builds such a structure from the list of
  groups and the draft revision.
\<close>

definition kem_prefs_of :: "s2n_kem_group list \<Rightarrow> nat \<Rightarrow> s2n_kem_preferences" where
  "kem_prefs_of groups revision =
     \<lparr> tls13_kem_group_count = length groups,
       tls13_kem_groups = map Some groups,
       tls13_pq_hybrid_draft_revision = revision \<rparr>"

text \<open>The set of groups a preference structure holds within its count.\<close>

definition groups_within :: "s2n_kem_preferences \<Rightarrow> s2n_kem_group set" where
  "groups_within p =
     {g. Some g \<in> set (take (tls13_kem_group_count p) (tls13_kem_groups p))}"

subsection \<open>\<^verbatim>\<open>s2n_get_predicted_negotiated_ecdhe_curve\<close>\<close>

text \<open>
  The curve predictor has the same two loops without the availability checks.  It reads
  \<^verbatim>\<open>policy->ecc_preferences\<close> without a guard.
\<close>

function ecc_default_loop ::
  "s2n_ecc_named_curve \<Rightarrow> s2n_ecc_preferences \<Rightarrow> nat
     \<Rightarrow> fault + s2n_ecc_named_curve option flow" where
  "ecc_default_loop client_default server_ecc i =
     (if i < count server_ecc then
        (case array_read (ecc_curves server_ecc) i of
           Inl f \<Rightarrow> Inl f
         | Inr None \<Rightarrow> Inr (Return None)
         | Inr (Some server_curve) \<Rightarrow>
             if ecc_iana_id server_curve = ecc_iana_id client_default
             then Inr (Return (Some client_default))
             else ecc_default_loop client_default server_ecc (Suc i))
      else Inr Fell_Through)"
  by pat_completeness auto
termination
  by (relation "measure (\<lambda>(d, se, i). count se - i)") auto

function ecc_client_loop ::
  "s2n_ecc_named_curve option \<Rightarrow> s2n_ecc_preferences \<Rightarrow> nat
     \<Rightarrow> fault + s2n_ecc_named_curve option flow" where
  "ecc_client_loop server_curve client_ecc j =
     (if j < count client_ecc then
        (case array_read (ecc_curves client_ecc) j of
           Inl f \<Rightarrow> Inl f
         | Inr None \<Rightarrow> Inr (Return None)
         | Inr (Some client_curve) \<Rightarrow>
             (case server_curve of
                None \<Rightarrow> Inr (Return None)
              | Some sc \<Rightarrow>
                  if ecc_iana_id client_curve = ecc_iana_id sc
                  then Inr (Return (Some client_curve))
                  else ecc_client_loop server_curve client_ecc (Suc j)))
      else Inr Fell_Through)"
  by pat_completeness auto
termination
  by (relation "measure (\<lambda>(sc, ce, j). count ce - j)") auto

function ecc_server_loop ::
  "s2n_ecc_preferences \<Rightarrow> s2n_ecc_preferences \<Rightarrow> nat
     \<Rightarrow> fault + s2n_ecc_named_curve option flow" where
  "ecc_server_loop client_ecc server_ecc i =
     (if i < count server_ecc then
        (case array_read (ecc_curves server_ecc) i of
           Inl f \<Rightarrow> Inl f
         | Inr server_curve \<Rightarrow>
             (case ecc_client_loop server_curve client_ecc 1 of
                Inl f \<Rightarrow> Inl f
              | Inr (Return r) \<Rightarrow> Inr (Return r)
              | Inr Fell_Through \<Rightarrow> ecc_server_loop client_ecc server_ecc (Suc i)))
      else Inr Fell_Through)"
  by pat_completeness auto
termination
  by (relation "measure (\<lambda>(ce, se, i). count se - i)") auto

definition s2n_get_predicted_negotiated_ecdhe_curve ::
  "s2n_security_policy option \<Rightarrow> s2n_security_policy option
     \<Rightarrow> fault + s2n_ecc_named_curve option" where
  "s2n_get_predicted_negotiated_ecdhe_curve client_sec_policy server_sec_policy =
     (case client_sec_policy of
        None \<Rightarrow> Inr None
      | Some cpol \<Rightarrow>
     (case server_sec_policy of
        None \<Rightarrow> Inr None
      | Some spol \<Rightarrow>
     (case ecc_preferences cpol of
        None \<Rightarrow> Inl Null_Dereference
      | Some client_ecc \<Rightarrow>
     (case array_read (ecc_curves client_ecc) 0 of
        Inl f \<Rightarrow> Inl f
      | Inr None \<Rightarrow> Inr None
      | Inr (Some client_default) \<Rightarrow>
     (case ecc_preferences spol of
        None \<Rightarrow> Inl Null_Dereference
      | Some server_ecc \<Rightarrow>
     (case ecc_default_loop client_default server_ecc 0 of
        Inl f \<Rightarrow> Inl f
      | Inr (Return r) \<Rightarrow> Inr r
      | Inr Fell_Through \<Rightarrow>
     (case ecc_server_loop client_ecc server_ecc 0 of
        Inl f \<Rightarrow> Inl f
      | Inr (Return r) \<Rightarrow> Inr r
      | Inr Fell_Through \<Rightarrow> Inr None)))))))"

definition ecc_prefs_of :: "s2n_ecc_named_curve list \<Rightarrow> s2n_ecc_preferences" where
  "ecc_prefs_of curves = \<lparr> count = length curves, ecc_curves = map Some curves \<rparr>"

definition policy_of :: "s2n_kem_preferences \<Rightarrow> s2n_ecc_preferences \<Rightarrow> s2n_security_policy" where
  "policy_of kem_prefs ecc_prefs =
     \<lparr> kem_preferences = Some kem_prefs, ecc_preferences = Some ecc_prefs \<rparr>"

subsection \<open>The two-tier rule in the words of the specification\<close>

text \<open>
  Section 4.3 of the specification, for a client list \<open>C\<close> and a server list \<open>S\<close>: the
  client's first entry is selected when the server lists it; otherwise \<open>S\<close> is scanned
  in order for the first entry matching some \<open>c \<in> C[1..]\<close> by \<open>iana_id\<close>.  Availability is
  asked of each candidate, and the identifier is a parameter so that the rule reads the same
  over KEM groups and over curves.
\<close>

definition second_tier ::
  "('g \<Rightarrow> bool) \<Rightarrow> ('g \<Rightarrow> 16 word) \<Rightarrow> 'g list \<Rightarrow> 'g list \<Rightarrow> 'g option" where
  "second_tier av ident later S =
     (case find (\<lambda>s. av s \<and> list_ex (\<lambda>c. av c \<and> ident c = ident s) later) S of
        None \<Rightarrow> None
      | Some s \<Rightarrow> find (\<lambda>c. av c \<and> ident c = ident s) later)"

definition fast_path :: "('g \<Rightarrow> bool) \<Rightarrow> ('g \<Rightarrow> 16 word) \<Rightarrow> 'g \<Rightarrow> 'g list \<Rightarrow> bool" where
  "fast_path av ident first S = (av first \<and> list_ex (\<lambda>s. av s \<and> ident s = ident first) S)"

definition two_tier_select ::
  "('g \<Rightarrow> bool) \<Rightarrow> ('g \<Rightarrow> 16 word) \<Rightarrow> 'g list \<Rightarrow> 'g list \<Rightarrow> 'g option" where
  "two_tier_select av ident C S =
     (case C of
        [] \<Rightarrow> None
      | first # later \<Rightarrow>
          if fast_path av ident first S then Some first else second_tier av ident later S)"

text \<open>
  Modelled from the spec: the HelloRetryRequest decision of the server, whose code
  (\<^verbatim>\<open>s2n_conn_set_handshake_type\<close> and the key share extension) is not among the sources.
  Section 4.3 selects in step 1 without a retry when the peer sent a key share for the group,
  and says of step 2 "If the peer did not send a key share for it, require HRR".  The peer's
  key shares are the map \<open>peer_key_shares\<close> of the handshake context, from group identifier
  to payload.
\<close>

definition requires_hrr :: "(16 word \<rightharpoonup> 8 word list) \<Rightarrow> 16 word \<Rightarrow> bool" where
  "requires_hrr peer_key_shares selected_id = (peer_key_shares selected_id = None)"

section \<open>The KEM group registry\<close>

text \<open>
  The nine groups are global constants of \<^verbatim>\<open>tls/s2n_kem.c\<close>, which is not among the
  sources; the tests name them by identifier only.  They are a parameter: a table of the
  nine constants.  \<open>registry_pairs\<close> says that each constant pairs the curve and the KEM
  its identifier names.
\<close>

record kem_group_registry =
  s2n_secp256r1_mlkem_768 :: s2n_kem_group
  s2n_x25519_mlkem_768 :: s2n_kem_group
  s2n_secp384r1_mlkem_1024 :: s2n_kem_group
  s2n_secp256r1_kyber_512_r3 :: s2n_kem_group
  s2n_secp256r1_kyber_768_r3 :: s2n_kem_group
  s2n_secp384r1_kyber_768_r3 :: s2n_kem_group
  s2n_secp521r1_kyber_1024_r3 :: s2n_kem_group
  s2n_x25519_kyber_512_r3 :: s2n_kem_group
  s2n_x25519_kyber_768_r3 :: s2n_kem_group

definition pairs :: "s2n_kem_group \<Rightarrow> ecc_curve_id \<Rightarrow> kem_id \<Rightarrow> bool" where
  "pairs g c k = (curve g = c \<and> kem g = k)"

definition registry_pairs :: "kem_group_registry \<Rightarrow> bool" where
  "registry_pairs reg =
     (pairs (s2n_secp256r1_mlkem_768 reg) Secp256r1 Mlkem_768
      \<and> pairs (s2n_x25519_mlkem_768 reg) X25519 Mlkem_768
      \<and> pairs (s2n_secp384r1_mlkem_1024 reg) Secp384r1 Mlkem_1024
      \<and> pairs (s2n_secp256r1_kyber_512_r3 reg) Secp256r1 Kyber_512_r3
      \<and> pairs (s2n_secp256r1_kyber_768_r3 reg) Secp256r1 Kyber_768_r3
      \<and> pairs (s2n_secp384r1_kyber_768_r3 reg) Secp384r1 Kyber_768_r3
      \<and> pairs (s2n_secp521r1_kyber_1024_r3 reg) Secp521r1 Kyber_1024_r3
      \<and> pairs (s2n_x25519_kyber_512_r3 reg) X25519 Kyber_512_r3
      \<and> pairs (s2n_x25519_kyber_768_r3 reg) X25519 Kyber_768_r3)"

text \<open>
  One table for the closed examples below.  The theorems hold for every table; the names
  and code points of this one are sample values.
\<close>

definition sample_registry :: kem_group_registry where
  "sample_registry =
     \<lparr> s2n_secp256r1_mlkem_768 =
         \<lparr> name = ''SecP256r1MLKEM768'', iana_id = 0x11EB,
           curve = Secp256r1, kem = Mlkem_768 \<rparr>,
       s2n_x25519_mlkem_768 =
         \<lparr> name = ''X25519MLKEM768'', iana_id = 0x11EC,
           curve = X25519, kem = Mlkem_768 \<rparr>,
       s2n_secp384r1_mlkem_1024 =
         \<lparr> name = ''SecP384r1MLKEM1024'', iana_id = 0x11ED,
           curve = Secp384r1, kem = Mlkem_1024 \<rparr>,
       s2n_secp256r1_kyber_512_r3 =
         \<lparr> name = ''secp256r1_kyber-512-r3'', iana_id = 0x2F3A,
           curve = Secp256r1, kem = Kyber_512_r3 \<rparr>,
       s2n_secp256r1_kyber_768_r3 =
         \<lparr> name = ''secp256r1_kyber-768-r3'', iana_id = 0x639A,
           curve = Secp256r1, kem = Kyber_768_r3 \<rparr>,
       s2n_secp384r1_kyber_768_r3 =
         \<lparr> name = ''secp384r1_kyber-768-r3'', iana_id = 0x2F3C,
           curve = Secp384r1, kem = Kyber_768_r3 \<rparr>,
       s2n_secp521r1_kyber_1024_r3 =
         \<lparr> name = ''secp521r1_kyber-1024-r3'', iana_id = 0x2F3D,
           curve = Secp521r1, kem = Kyber_1024_r3 \<rparr>,
       s2n_x25519_kyber_512_r3 =
         \<lparr> name = ''x25519_kyber-512-r3'', iana_id = 0x2F39,
           curve = X25519, kem = Kyber_512_r3 \<rparr>,
       s2n_x25519_kyber_768_r3 =
         \<lparr> name = ''x25519_kyber-768-r3'', iana_id = 0x6399,
           curve = X25519, kem = Kyber_768_r3 \<rparr> \<rparr>"

text \<open>The arrays of groups that \<^verbatim>\<open>main\<close> of the handshake test declares.\<close>

definition kyber_test_groups :: "kem_group_registry \<Rightarrow> s2n_kem_group list" where
  "kyber_test_groups reg =
     [s2n_x25519_kyber_512_r3 reg, s2n_secp256r1_kyber_512_r3 reg,
      s2n_secp256r1_kyber_768_r3 reg, s2n_secp384r1_kyber_768_r3 reg,
      s2n_secp521r1_kyber_1024_r3 reg, s2n_x25519_kyber_768_r3 reg]"

definition kyber768_test_kem_groups :: "kem_group_registry \<Rightarrow> s2n_kem_group list" where
  "kyber768_test_kem_groups reg =
     [s2n_secp384r1_kyber_768_r3 reg, s2n_secp256r1_kyber_512_r3 reg]"

definition kyber1024_test_kem_groups :: "kem_group_registry \<Rightarrow> s2n_kem_group list" where
  "kyber1024_test_kem_groups reg =
     [s2n_secp521r1_kyber_1024_r3 reg, s2n_secp256r1_kyber_512_r3 reg]"

definition mlkem768_test_groups :: "kem_group_registry \<Rightarrow> s2n_kem_group list" where
  "mlkem768_test_groups reg = [s2n_x25519_mlkem_768 reg, s2n_secp256r1_mlkem_768 reg]"

definition mlkem1024_test_groups :: "kem_group_registry \<Rightarrow> s2n_kem_group list" where
  "mlkem1024_test_groups reg = [s2n_secp384r1_mlkem_1024 reg]"

text \<open>Curves for the closed examples; their code points are sample values as well.\<close>

definition sample_secp256r1 :: s2n_ecc_named_curve where
  "sample_secp256r1 = \<lparr> ecc_iana_id = 23, ecc_name = ''secp256r1'' \<rparr>"

definition sample_secp384r1 :: s2n_ecc_named_curve where
  "sample_secp384r1 = \<lparr> ecc_iana_id = 24, ecc_name = ''secp384r1'' \<rparr>"

definition sample_x25519 :: s2n_ecc_named_curve where
  "sample_x25519 = \<lparr> ecc_iana_id = 29, ecc_name = ''x25519'' \<rparr>"

section \<open>Availability of a KEM group\<close>

text \<open>
  The capability probes of the crypto provider, as the KEM preferences test calls them:
  \<^verbatim>\<open>s2n_libcrypto_supports_evp_kem()\<close> (the generic KEM interface),
  \<^verbatim>\<open>s2n_is_evp_apis_supported()\<close> (on which the test makes the \<open>x25519\<close> groups depend)
  and \<^verbatim>\<open>s2n_libcrypto_supports_mlkem()\<close>.
\<close>

record libcrypto =
  s2n_libcrypto_supports_evp_kem :: bool
  s2n_is_evp_apis_supported :: bool
  s2n_libcrypto_supports_mlkem :: bool

definition is_mlkem :: "kem_id \<Rightarrow> bool" where
  "is_mlkem k = (k = Mlkem_768 \<or> k = Mlkem_1024)"

text \<open>
  Modelled from the spec: \<^verbatim>\<open>s2n_kem_group_is_available\<close>, defined in \<^verbatim>\<open>tls/s2n_kem.c\<close>,
  which is not among the sources (only its test is).  Section 4.1: true iff "(a) the linked
  crypto provider exposes a generic KEM interface, AND (b) for x25519-based groups, the
  provider exposes the x25519 primitive, AND (c) for ML-KEM groups, the provider exposes
  ML-KEM".
\<close>

definition s2n_kem_group_is_available :: "libcrypto \<Rightarrow> s2n_kem_group \<Rightarrow> bool" where
  "s2n_kem_group_is_available lc g =
     (s2n_libcrypto_supports_evp_kem lc
      \<and> (if curve g = X25519 then s2n_is_evp_apis_supported lc else True)
      \<and> (if is_mlkem (kem g) then s2n_libcrypto_supports_mlkem lc else True))"

text \<open>
  The assertions of the KEM preferences test on availability (the block under
  \<^verbatim>\<open>if (s2n_libcrypto_supports_evp_kem())\<close> and its \<^verbatim>\<open>else\<close>), for a provider \<open>lc\<close>, a
  predicate \<open>available\<close> and a table of the groups: true when every
  \<^verbatim>\<open>EXPECT_TRUE\<close> and \<^verbatim>\<open>EXPECT_FALSE\<close> that runs holds.  Without ML-KEM in the
  provider the test asserts nothing about the ML-KEM groups.
\<close>

definition kem_group_availability_assertions ::
  "libcrypto \<Rightarrow> (s2n_kem_group \<Rightarrow> bool) \<Rightarrow> kem_group_registry \<Rightarrow> bool" where
  "kem_group_availability_assertions lc available reg =
     (if s2n_libcrypto_supports_evp_kem lc then
        available (s2n_secp256r1_kyber_512_r3 reg)
        \<and> available (s2n_secp256r1_kyber_768_r3 reg)
        \<and> available (s2n_secp384r1_kyber_768_r3 reg)
        \<and> available (s2n_secp521r1_kyber_1024_r3 reg)
        \<and> (if s2n_is_evp_apis_supported lc then
              available (s2n_x25519_kyber_512_r3 reg)
              \<and> available (s2n_x25519_kyber_768_r3 reg)
            else
              \<not> available (s2n_x25519_kyber_512_r3 reg)
              \<and> \<not> available (s2n_x25519_kyber_768_r3 reg))
        \<and> (if s2n_libcrypto_supports_mlkem lc then
              available (s2n_secp256r1_mlkem_768 reg)
              \<and> available (s2n_secp384r1_mlkem_1024 reg)
              \<and> (if s2n_is_evp_apis_supported lc then
                    available (s2n_x25519_mlkem_768 reg)
                  else
                    \<not> available (s2n_x25519_mlkem_768 reg))
            else True)
      else
        \<not> available (s2n_secp256r1_kyber_512_r3 reg)
        \<and> \<not> available (s2n_x25519_kyber_512_r3 reg)
        \<and> \<not> available (s2n_x25519_kyber_768_r3 reg)
        \<and> \<not> available (s2n_secp256r1_kyber_768_r3 reg)
        \<and> \<not> available (s2n_secp384r1_kyber_768_r3 reg)
        \<and> \<not> available (s2n_secp521r1_kyber_1024_r3 reg)
        \<and> \<not> available (s2n_secp256r1_mlkem_768 reg)
        \<and> \<not> available (s2n_x25519_mlkem_768 reg)
        \<and> \<not> available (s2n_secp384r1_mlkem_1024 reg))"

definition awslc_with_mlkem :: libcrypto where
  "awslc_with_mlkem =
     \<lparr> s2n_libcrypto_supports_evp_kem = True,
       s2n_is_evp_apis_supported = True,
       s2n_libcrypto_supports_mlkem = True \<rparr>"

definition awslc_without_mlkem :: libcrypto where
  "awslc_without_mlkem =
     \<lparr> s2n_libcrypto_supports_evp_kem = True,
       s2n_is_evp_apis_supported = True,
       s2n_libcrypto_supports_mlkem = False \<rparr>"

section \<open>Sizes of a serialized connection\<close>

text \<open>
  The two macros of \<^verbatim>\<open>tls/s2n_connection_serialize.h\<close>.  The five lengths they add are
  constants of \<^verbatim>\<open>tls/s2n_tls_parameters.h\<close>, which is not among the sources, and are
  a parameter.  They are lengths in bytes of TLS fields, far from the range of \<^verbatim>\<open>int\<close>,
  so the sums are taken over the natural numbers.
\<close>

record tls_parameters =
  S2N_TLS_PROTOCOL_VERSION_LEN :: nat
  S2N_TLS_CIPHER_SUITE_LEN :: nat
  S2N_TLS_SEQUENCE_NUM_LEN :: nat
  S2N_TLS_SECRET_LEN :: nat
  S2N_TLS_RANDOM_DATA_LEN :: nat

definition S2N_SERIALIZED_CONN_FIXED_SIZE :: "tls_parameters \<Rightarrow> nat" where
  "S2N_SERIALIZED_CONN_FIXED_SIZE p =
     8 + S2N_TLS_PROTOCOL_VERSION_LEN p + S2N_TLS_CIPHER_SUITE_LEN p
       + S2N_TLS_SEQUENCE_NUM_LEN p + S2N_TLS_SEQUENCE_NUM_LEN p + 2"

definition S2N_SERIALIZED_CONN_TLS12_SIZE :: "tls_parameters \<Rightarrow> nat" where
  "S2N_SERIALIZED_CONN_TLS12_SIZE p =
     S2N_SERIALIZED_CONN_FIXED_SIZE p + S2N_TLS_SECRET_LEN p
       + S2N_TLS_RANDOM_DATA_LEN p + S2N_TLS_RANDOM_DATA_LEN p"

definition sample_tls_parameters :: tls_parameters where
  "sample_tls_parameters =
     \<lparr> S2N_TLS_PROTOCOL_VERSION_LEN = 2,
       S2N_TLS_CIPHER_SUITE_LEN = 2,
       S2N_TLS_SEQUENCE_NUM_LEN = 8,
       S2N_TLS_SECRET_LEN = 48,
       S2N_TLS_RANDOM_DATA_LEN = 32 \<rparr>"

section \<open>The handshake test driver\<close>

subsection \<open>Connections and the library underneath\<close>

text \<open>
  \<^verbatim>\<open>s2n_test_tls13_pq_handshake\<close> drives two connections through the handshake by calls
  into the library and checks fields of the connections in between.  The fields it reads
  are the fields of the record below; the comment of each gives the C path.  A curve inside
  the KEM group parameters is compared with \<^verbatim>\<open>expected_kem_group->curve\<close> and has that
  field's type; the curve of the classical parameters is compared with
  \<^verbatim>\<open>expected_curve\<close>.  The three secrets are arrays of
  \<^verbatim>\<open>S2N_TLS13_SECRET_MAX_LEN\<close> bytes inside the connection; an array is given by its
  byte at each index, and the driver reads the first 32 or 48 of them.  Everything else a
  connection holds is \<open>internal\<close>.
\<close>

datatype s2n_mode = S2N_CLIENT | S2N_SERVER

datatype message_type =
  CLIENT_HELLO | SERVER_HELLO | SERVER_CHANGE_CIPHER_SPEC | CLIENT_CHANGE_CIPHER_SPEC
  | OTHER_MESSAGE

datatype cipher_suite_ref = s2n_tls13_aes_256_gcm_sha384 | other_cipher_suite

datatype extract_secret_type_t = S2N_HANDSHAKE_SECRET | OTHER_SECRET

record 'i s2n_connection =
  actual_protocol_version :: nat
  handshake_type :: "32 word"
    \<comment> \<open>\<^verbatim>\<open>handshake.handshake_type\<close>\<close>
  len_prefixed :: bool
    \<comment> \<open>\<^verbatim>\<open>kex_params.client_kem_group_params.kem_params.len_prefixed\<close>\<close>
  kem_group :: "s2n_kem_group option"
    \<comment> \<open>\<^verbatim>\<open>kex_params.server_kem_group_params.kem_group\<close>\<close>
  kem_params_kem :: "kem_id option"
    \<comment> \<open>\<^verbatim>\<open>kex_params.server_kem_group_params.kem_params.kem\<close>\<close>
  kem_group_negotiated_curve :: "ecc_curve_id option"
    \<comment> \<open>\<^verbatim>\<open>kex_params.server_kem_group_params.ecc_params.negotiated_curve\<close>\<close>
  negotiated_curve :: "s2n_ecc_named_curve option"
    \<comment> \<open>\<^verbatim>\<open>kex_params.server_ecc_evp_params.negotiated_curve\<close>\<close>
  cipher_suite :: cipher_suite_ref
    \<comment> \<open>\<^verbatim>\<open>secure->cipher_suite\<close>\<close>
  extract_secret_type :: extract_secret_type_t
    \<comment> \<open>\<^verbatim>\<open>secrets.extract_secret_type\<close>\<close>
  extract_secret :: "nat \<Rightarrow> 8 word"
    \<comment> \<open>\<^verbatim>\<open>secrets.version.tls13.extract_secret\<close>, and so the next two\<close>
  client_handshake_secret :: "nat \<Rightarrow> 8 word"
  server_handshake_secret :: "nat \<Rightarrow> 8 word"
  security_policy_override :: "s2n_security_policy option"
  internal :: 'i

text \<open>
  The two connections and the two stuffers that join them are the state the driver works
  on; configurations and the certificate chain are \<open>environment\<close>.
\<close>

record 'i world =
  client_conn :: "'i s2n_connection"
  server_conn :: "'i s2n_connection"
  client_to_server :: "8 word list"
  server_to_client :: "8 word list"
  environment :: 'i

text \<open>
  The library is not among the sources (\<^verbatim>\<open>tls/s2n_handshake_io.c\<close>, which the
  test includes, is not either), so the driver takes it as a parameter: one field for each function and
  constant the driver uses.  A function that gets a connection pointer and may change the
  connection and what it is wired to maps worlds to worlds, told by \<open>s2n_mode\<close> which
  connection it was handed; \<open>None\<close> is the failure that \<^verbatim>\<open>POSIX_GUARD\<close> passes on.
  \<open>set_up_connections\<close> stands for the allocations and wiring of the block "Set up
  connections", \<open>clean_up\<close> for the block "Clean up".  \<open>s2n_tls13_connection_keys\<close> gives
  the \<^verbatim>\<open>size\<close> of the key structure the macro declares.  The length of the secret
  arrays, \<^verbatim>\<open>S2N_TLS13_SECRET_MAX_LEN\<close>, is no field: an array is given by index.
\<close>

record 'i library =
  S2N_TLS13 :: nat
  INITIAL :: "32 word"
  HELLO_RETRY_REQUEST :: "32 word"
  set_up_connections :: "'i world option"
  s2n_conn_get_current_message_type :: "'i s2n_connection \<Rightarrow> message_type"
  s2n_handshake_write_io :: "s2n_mode \<Rightarrow> 'i world \<Rightarrow> 'i world option"
  s2n_handshake_read_io :: "s2n_mode \<Rightarrow> 'i world \<Rightarrow> 'i world option"
  s2n_conn_set_handshake_type :: "s2n_mode \<Rightarrow> 'i world \<Rightarrow> 'i world option"
  s2n_handshake_type_check_tls13_flag :: "'i s2n_connection \<Rightarrow> 32 word \<Rightarrow> bool"
  s2n_tls13_client_must_use_hybrid_kem_length_prefix :: "s2n_kem_preferences option \<Rightarrow> bool"
  s2n_connection_get_kem_group_name :: "'i s2n_connection \<Rightarrow> string"
  s2n_connection_get_curve :: "'i s2n_connection \<Rightarrow> string"
  s2n_connection_get_key_exchange_group :: "'i s2n_connection \<Rightarrow> string option"
  s2n_tls13_connection_keys :: "'i s2n_connection \<Rightarrow> nat option"
  clean_up :: "'i world \<Rightarrow> unit option"

text \<open>
  The driver returns \<^verbatim>\<open>S2N_SUCCESS\<close>, which is \<open>Some ()\<close>, or a failure, which is
  \<open>None\<close>.  \<^verbatim>\<open>POSIX_ENSURE\<close> and its variants leave the function with a failure when
  the condition does not hold.
\<close>

definition ensure :: "bool \<Rightarrow> unit option" where
  "ensure b = (if b then Some () else None)"

text \<open>
  The pair \<^verbatim>\<open>POSIX_ENSURE_EQ(strlen(e), strlen(s))\<close>,
  \<^verbatim>\<open>POSIX_ENSURE_EQ(memcmp(e, s, strlen(e)), 0)\<close> on two strings.
\<close>

definition ensure_same_name :: "string \<Rightarrow> string \<Rightarrow> unit option" where
  "ensure_same_name e s =
     do { ensure (length e = length s);
          ensure (take (length e) e = take (length e) s) }"

text \<open>
  \<^verbatim>\<open>memcmp(a, b, n) == 0\<close> on two arrays: the bytes at the indices below \<open>n\<close> are
  the same.
\<close>

definition memcmp_eq :: "(nat \<Rightarrow> 8 word) \<Rightarrow> (nat \<Rightarrow> 8 word) \<Rightarrow> nat \<Rightarrow> bool" where
  "memcmp_eq a b n = list_all (\<lambda>i. a i = b i) [0..<n]"


subsection \<open>\<^verbatim>\<open>s2n_test_tls13_pq_handshake\<close>\<close>

text \<open>From "Set up connections" to "Server is now on TLS13".\<close>

definition client_hello_flight ::
  "'i library \<Rightarrow> s2n_security_policy \<Rightarrow> s2n_security_policy \<Rightarrow> 'i world option" where
  "client_hello_flight lib client_sec_policy server_sec_policy =
     do { w \<leftarrow> set_up_connections lib;
          let w = w\<lparr> client_conn := (client_conn w)
                       \<lparr> security_policy_override := Some client_sec_policy \<rparr>,
                     server_conn := (server_conn w)
                       \<lparr> security_policy_override := Some server_sec_policy \<rparr> \<rparr>;
          ensure (s2n_conn_get_current_message_type lib (client_conn w) = CLIENT_HELLO);
          w \<leftarrow> s2n_handshake_write_io lib S2N_CLIENT w;
          ensure (actual_protocol_version (client_conn w) = S2N_TLS13 lib);
          ensure (actual_protocol_version (server_conn w) = 0);
          ensure (handshake_type (client_conn w) = INITIAL lib);
          ensure (s2n_conn_get_current_message_type lib (server_conn w) = CLIENT_HELLO);
          w \<leftarrow> s2n_handshake_read_io lib S2N_SERVER w;
          ensure (actual_protocol_version (server_conn w) = S2N_TLS13 lib);
          Some w }"

text \<open>
  The three assertions on the length prefix under "Assert that the server chose the correct
  group", as a function of the four values they compare: the expectation of the caller, the
  \<^verbatim>\<open>len_prefixed\<close> of the client connection, the result of
  \<^verbatim>\<open>s2n_tls13_client_must_use_hybrid_kem_length_prefix\<close> on the client's KEM preferences,
  and the \<^verbatim>\<open>len_prefixed\<close> of the server connection.
\<close>

definition ensure_len_prefix :: "bool \<Rightarrow> bool \<Rightarrow> bool \<Rightarrow> bool \<Rightarrow> unit option" where
  "ensure_len_prefix len_prefix_expected client_len_prefixed client_must_use server_len_prefixed =
     do { ensure (len_prefix_expected = client_len_prefixed);
          ensure (len_prefix_expected = client_must_use);
          ensure (server_len_prefixed = client_len_prefixed) }"

text \<open>"Assert that the server chose the correct group".\<close>

definition check_server_choice ::
  "'i library \<Rightarrow> s2n_security_policy \<Rightarrow> s2n_kem_group option
     \<Rightarrow> s2n_ecc_named_curve option \<Rightarrow> bool \<Rightarrow> 'i world \<Rightarrow> unit option" where
  "check_server_choice lib client_sec_policy expected_kem_group expected_curve
       len_prefix_expected w =
     (case expected_kem_group of
        Some g \<Rightarrow>
          do { ensure_len_prefix len_prefix_expected (len_prefixed (client_conn w))
                 (s2n_tls13_client_must_use_hybrid_kem_length_prefix lib
                    (kem_preferences client_sec_policy))
                 (len_prefixed (server_conn w));
               ensure (Some g = kem_group (server_conn w));
               ensure (Some (kem g) = kem_params_kem (server_conn w));
               ensure (Some (curve g) = kem_group_negotiated_curve (server_conn w));
               ensure (None = negotiated_curve (server_conn w)) }
      | None \<Rightarrow>
          do { ensure (None = kem_group (server_conn w));
               ensure (None = kem_params_kem (server_conn w));
               ensure (None = kem_group_negotiated_curve (server_conn w));
               ensure (expected_curve = negotiated_curve (server_conn w)) })"

text \<open>From "Server sends ServerHello or HRR" to "Client reads ServerHello".\<close>

definition retry_flight :: "'i library \<Rightarrow> 'i world \<Rightarrow> 'i world option" where
  "retry_flight lib w =
     do { ensure (s2n_conn_get_current_message_type lib (client_conn w) = SERVER_HELLO);
          w \<leftarrow> s2n_handshake_read_io lib S2N_CLIENT w;
          w \<leftarrow> s2n_conn_set_handshake_type lib S2N_CLIENT w;
          ensure (0 \<noteq> handshake_type (client_conn w) AND HELLO_RETRY_REQUEST lib);
          ensure (s2n_conn_get_current_message_type lib (client_conn w)
                    = CLIENT_CHANGE_CIPHER_SPEC);
          w \<leftarrow> s2n_handshake_read_io lib S2N_CLIENT w;
          ensure (s2n_conn_get_current_message_type lib (client_conn w)
                    = CLIENT_CHANGE_CIPHER_SPEC);
          w \<leftarrow> s2n_handshake_write_io lib S2N_CLIENT w;
          ensure (s2n_conn_get_current_message_type lib (client_conn w) = CLIENT_HELLO);
          w \<leftarrow> s2n_handshake_write_io lib S2N_CLIENT w;
          ensure (s2n_conn_get_current_message_type lib (server_conn w) = CLIENT_HELLO);
          w \<leftarrow> s2n_handshake_read_io lib S2N_SERVER w;
          ensure (s2n_conn_get_current_message_type lib (server_conn w) = CLIENT_HELLO);
          w \<leftarrow> s2n_handshake_read_io lib S2N_SERVER w;
          ensure (s2n_conn_get_current_message_type lib (server_conn w) = SERVER_HELLO);
          s2n_handshake_write_io lib S2N_SERVER w }"

definition server_hello_flight :: "'i library \<Rightarrow> bool \<Rightarrow> 'i world \<Rightarrow> 'i world option" where
  "server_hello_flight lib hrr_expected w =
     do { w \<leftarrow> s2n_conn_set_handshake_type lib S2N_SERVER w;
          ensure (hrr_expected =
             s2n_handshake_type_check_tls13_flag lib (server_conn w) (HELLO_RETRY_REQUEST lib));
          w \<leftarrow> s2n_handshake_write_io lib S2N_SERVER w;
          ensure (s2n_conn_get_current_message_type lib (server_conn w)
                    = SERVER_CHANGE_CIPHER_SPEC);
          w \<leftarrow> s2n_handshake_write_io lib S2N_SERVER w;
          w \<leftarrow> (if hrr_expected then retry_flight lib w else Some w);
          ensure (s2n_conn_get_current_message_type lib (client_conn w) = SERVER_HELLO);
          s2n_handshake_read_io lib S2N_CLIENT w }"

text \<open>"Assert that the correct group was negotiated", on one connection and on both.\<close>

definition check_hybrid_fields :: "s2n_kem_group \<Rightarrow> 'i s2n_connection \<Rightarrow> unit option" where
  "check_hybrid_fields g conn =
     do { ensure (Some g = kem_group conn);
          ensure (Some (kem g) = kem_params_kem conn);
          ensure (Some (curve g) = kem_group_negotiated_curve conn);
          ensure (None = negotiated_curve conn) }"

definition check_classical_fields ::
  "s2n_ecc_named_curve option \<Rightarrow> 'i s2n_connection \<Rightarrow> unit option" where
  "check_classical_fields expected_curve conn =
     do { ensure (None = kem_group conn);
          ensure (None = kem_params_kem conn);
          ensure (None = kem_group_negotiated_curve conn);
          ensure (expected_curve = negotiated_curve conn) }"

definition check_negotiated ::
  "'i library \<Rightarrow> s2n_kem_group option \<Rightarrow> s2n_ecc_named_curve option \<Rightarrow> 'i world
     \<Rightarrow> unit option" where
  "check_negotiated lib expected_kem_group expected_curve w =
     (case expected_kem_group of
        Some g \<Rightarrow>
          do { check_hybrid_fields g (client_conn w);
               check_hybrid_fields g (server_conn w);
               ensure_same_name (name g) (s2n_connection_get_kem_group_name lib (server_conn w));
               ensure_same_name (name g) (s2n_connection_get_kem_group_name lib (client_conn w));
               server_group_name \<leftarrow> s2n_connection_get_key_exchange_group lib (server_conn w);
               client_group_name \<leftarrow> s2n_connection_get_key_exchange_group lib (client_conn w);
               ensure_same_name (name g) server_group_name;
               ensure_same_name (name g) client_group_name }
      | None \<Rightarrow>
          (case expected_curve of
             None \<Rightarrow> None \<comment> \<open>excluded by the first check of the function\<close>
           | Some c \<Rightarrow>
               do { check_classical_fields expected_curve (client_conn w);
                    check_classical_fields expected_curve (server_conn w);
                    ensure_same_name (ecc_name c) (s2n_connection_get_curve lib (server_conn w));
                    ensure_same_name (ecc_name c) (s2n_connection_get_curve lib (client_conn w));
                    server_group_name \<leftarrow>
                      s2n_connection_get_key_exchange_group lib (server_conn w);
                    client_group_name \<leftarrow>
                      s2n_connection_get_key_exchange_group lib (client_conn w);
                    ensure_same_name (ecc_name c) server_group_name;
                    ensure_same_name (ecc_name c) client_group_name }))"

text \<open>
  "Verify basic properties of secrets", up to \<^verbatim>\<open>uint8_t size = server_secret_info.size\<close>:
  the result is \<open>size\<close>.
\<close>

definition secret_size :: "'i library \<Rightarrow> 'i world \<Rightarrow> nat option" where
  "secret_size lib w =
     do { server_secret_info_size \<leftarrow> s2n_tls13_connection_keys lib (server_conn w);
          client_secret_info_size \<leftarrow> s2n_tls13_connection_keys lib (client_conn w);
          ensure (cipher_suite (server_conn w) = cipher_suite (client_conn w));
          (if cipher_suite (server_conn w) = s2n_tls13_aes_256_gcm_sha384 then
             do { ensure (server_secret_info_size = 48);
                  ensure (client_secret_info_size = 48) }
           else
             do { ensure (server_secret_info_size = 32);
                  ensure (client_secret_info_size = 32) });
          ensure (server_secret_info_size = client_secret_info_size);
          Some (server_secret_info_size mod 256) }"

text \<open>
  "Verify secrets aren't just zero'ed memory" and "Verify client and server secrets are
  equal to each other", over the \<open>n\<close> bytes that \<^verbatim>\<open>size\<close> holds.  \<^verbatim>\<open>all_zeros\<close>
  is an array of \<^verbatim>\<open>S2N_TLS13_SECRET_MAX_LEN\<close> zero bytes, as long as each secret; the
  checks on the sizes before let \<open>n\<close> be 32 or 48 only, so every comparison stays
  inside the arrays as long as that constant of the library is at least 48.
\<close>

definition compare_secrets :: "'i library \<Rightarrow> nat \<Rightarrow> 'i world \<Rightarrow> unit option" where
  "compare_secrets lib n w =
     (let all_zeros = (\<lambda>i. 0 :: 8 word);
          client_secrets = client_conn w;
          server_secrets = server_conn w
      in do {
          ensure (extract_secret_type (client_conn w) = S2N_HANDSHAKE_SECRET);
          ensure (\<not> memcmp_eq all_zeros (extract_secret client_secrets) n);
          ensure (\<not> memcmp_eq all_zeros (client_handshake_secret client_secrets) n);
          ensure (\<not> memcmp_eq all_zeros (server_handshake_secret client_secrets) n);
          ensure (extract_secret_type (server_conn w) = S2N_HANDSHAKE_SECRET);
          ensure (\<not> memcmp_eq all_zeros (extract_secret server_secrets) n);
          ensure (\<not> memcmp_eq all_zeros (client_handshake_secret server_secrets) n);
          ensure (\<not> memcmp_eq all_zeros (server_handshake_secret server_secrets) n);
          ensure (memcmp_eq (extract_secret server_secrets)
                    (extract_secret client_secrets) n);
          ensure (memcmp_eq (client_handshake_secret server_secrets)
                    (client_handshake_secret client_secrets) n);
          ensure (memcmp_eq (server_handshake_secret server_secrets)
                    (server_handshake_secret client_secrets) n) })"

definition check_secrets :: "'i library \<Rightarrow> 'i world \<Rightarrow> nat option" where
  "check_secrets lib w =
     do { size \<leftarrow> secret_size lib w;
          compare_secrets lib size w;
          Some size }"

text \<open>The handshake proper: everything before the final checks.\<close>

definition pq_handshake ::
  "'i library \<Rightarrow> s2n_security_policy \<Rightarrow> s2n_security_policy \<Rightarrow> s2n_kem_group option
     \<Rightarrow> s2n_ecc_named_curve option \<Rightarrow> bool \<Rightarrow> bool \<Rightarrow> 'i world option" where
  "pq_handshake lib client_sec_policy server_sec_policy expected_kem_group expected_curve
       hrr_expected len_prefix_expected =
     do { ensure ((expected_kem_group = None) \<noteq> (expected_curve = None));
          w \<leftarrow> client_hello_flight lib client_sec_policy server_sec_policy;
          check_server_choice lib client_sec_policy expected_kem_group expected_curve
            len_prefix_expected w;
          server_hello_flight lib hrr_expected w }"

definition s2n_test_tls13_pq_handshake ::
  "'i library \<Rightarrow> s2n_security_policy \<Rightarrow> s2n_security_policy \<Rightarrow> s2n_kem_group option
     \<Rightarrow> s2n_ecc_named_curve option \<Rightarrow> bool \<Rightarrow> bool \<Rightarrow> unit option" where
  "s2n_test_tls13_pq_handshake lib client_sec_policy server_sec_policy expected_kem_group
       expected_curve hrr_expected len_prefix_expected =
     do { w \<leftarrow> pq_handshake lib client_sec_policy server_sec_policy expected_kem_group
                 expected_curve hrr_expected len_prefix_expected;
          check_negotiated lib expected_kem_group expected_curve w;
          size \<leftarrow> check_secrets lib w;
          clean_up lib w }"

subsection \<open>Test vectors whose policies the test itself declares\<close>

text \<open>
  \<^verbatim>\<open>main\<close> declares the policies below; of their fields the KEM preferences are written
  out in the source, and the curve preferences are tables declared elsewhere, taken as a
  parameter.
\<close>

record ecc_preference_tables =
  s2n_ecc_preferences_20200310 :: s2n_ecc_preferences
  s2n_ecc_preferences_20201021 :: s2n_ecc_preferences
  s2n_ecc_preferences_20240603 :: s2n_ecc_preferences

definition kyber_test_prefs_draft0 :: "kem_group_registry \<Rightarrow> s2n_kem_preferences" where
  "kyber_test_prefs_draft0 reg = kem_prefs_of (kyber_test_groups reg) 0"

definition kyber_test_prefs_draft5 :: "kem_group_registry \<Rightarrow> s2n_kem_preferences" where
  "kyber_test_prefs_draft5 reg = kem_prefs_of (kyber_test_groups reg) 5"

definition kyber_test_policy_draft0 ::
  "kem_group_registry \<Rightarrow> ecc_preference_tables \<Rightarrow> s2n_security_policy" where
  "kyber_test_policy_draft0 reg ecc =
     policy_of (kyber_test_prefs_draft0 reg) (s2n_ecc_preferences_20200310 ecc)"

definition kyber_test_policy_draft5 ::
  "kem_group_registry \<Rightarrow> ecc_preference_tables \<Rightarrow> s2n_security_policy" where
  "kyber_test_policy_draft5 reg ecc =
     policy_of (kyber_test_prefs_draft5 reg) (s2n_ecc_preferences_20200310 ecc)"

text \<open>
  The policy of the self-talk loop: one group, draft revision 5.
\<close>

definition singleton_test_pref :: "s2n_kem_group \<Rightarrow> s2n_kem_preferences" where
  "singleton_test_pref g =
     \<lparr> tls13_kem_group_count = 1,
       tls13_kem_groups = [Some g],
       tls13_pq_hybrid_draft_revision = 5 \<rparr>"

definition singleton_test_policy ::
  "ecc_preference_tables \<Rightarrow> s2n_kem_group \<Rightarrow> s2n_security_policy" where
  "singleton_test_policy ecc g =
     policy_of (singleton_test_pref g) (s2n_ecc_preferences_20240603 ecc)"

record pq_handshake_test_vector =
  client_policy :: s2n_security_policy
  server_policy :: s2n_security_policy
  expected_kem_group :: "s2n_kem_group option"
  expected_curve :: "s2n_ecc_named_curve option"
  hrr_expected :: bool
  len_prefix_expected :: bool

definition self_talk_vector ::
  "ecc_preference_tables \<Rightarrow> s2n_kem_group \<Rightarrow> pq_handshake_test_vector" where
  "self_talk_vector ecc g =
     \<lparr> client_policy = singleton_test_policy ecc g,
       server_policy = singleton_test_policy ecc g,
       expected_kem_group = Some g,
       expected_curve = None,
       hrr_expected = False,
       len_prefix_expected = False \<rparr>"

text \<open>
  The two entries of \<^verbatim>\<open>test_vectors\<close> under "Check that we're backwards and forwards
  compatible with different Hybrid PQ draft revisions".
\<close>

definition draft0_client_vector ::
  "kem_group_registry \<Rightarrow> ecc_preference_tables \<Rightarrow> pq_handshake_test_vector" where
  "draft0_client_vector reg ecc =
     \<lparr> client_policy = kyber_test_policy_draft0 reg ecc,
       server_policy = kyber_test_policy_draft5 reg ecc,
       expected_kem_group = Some (s2n_x25519_kyber_512_r3 reg),
       expected_curve = None,
       hrr_expected = False,
       len_prefix_expected = True \<rparr>"

definition draft5_client_vector ::
  "kem_group_registry \<Rightarrow> ecc_preference_tables \<Rightarrow> pq_handshake_test_vector" where
  "draft5_client_vector reg ecc =
     \<lparr> client_policy = kyber_test_policy_draft5 reg ecc,
       server_policy = kyber_test_policy_draft0 reg ecc,
       expected_kem_group = Some (s2n_x25519_kyber_512_r3 reg),
       expected_curve = None,
       hrr_expected = False,
       len_prefix_expected = False \<rparr>"

subsection \<open>The observability accessors\<close>

text \<open>
  Modelled from the spec: \<^verbatim>\<open>s2n_connection_get_kem_group_name\<close> and
  \<^verbatim>\<open>s2n_connection_get_curve\<close>, which the test calls and whose code is not among the
  sources.  Section 6: the first "returns the negotiated hybrid group's public name or
  empty if none", the second "returns the negotiated classical curve's name if no hybrid
  was chosen"; section 8 has it empty otherwise.
\<close>

definition get_kem_group_name :: "'i s2n_connection \<Rightarrow> string" where
  "get_kem_group_name conn = (case kem_group conn of Some g \<Rightarrow> name g | None \<Rightarrow> [])"

definition get_curve :: "'i s2n_connection \<Rightarrow> string" where
  "get_curve conn =
     (case kem_group conn of
        Some g \<Rightarrow> []
      | None \<Rightarrow> (case negotiated_curve conn of Some c \<Rightarrow> ecc_name c | None \<Rightarrow> []))"

section \<open>The selection engine and its outcome\<close>

text \<open>
  Modelled from the spec: \<^verbatim>\<open>s2n_tls13_client_must_use_hybrid_kem_length_prefix\<close>, which
  the driver calls and whose code is not among the sources.  Section 4.3 makes
  \<open>len_prefixed\<close> a function of the client's \<open>hybrid_draft_revision\<close> alone.  Of the two
  polarities found in the specification this is the one of the boundary table of section 8
  ("true (draft-0)", "false (draft-5)"), which is the one that the test vectors of the
  source expect of each client policy the test declares.  A client without KEM preferences
  writes no hybrid key share, hence no prefix.
\<close>

definition must_use_hybrid_kem_length_prefix :: "s2n_kem_preferences option \<Rightarrow> bool" where
  "must_use_hybrid_kem_length_prefix kem_pref =
     (case kem_pref of
        None \<Rightarrow> False
      | Some k \<Rightarrow> tls13_pq_hybrid_draft_revision k = 0)"

text \<open>
  Modelled from the spec: the value of \<open>len_prefixed\<close> that a peer holds, from its role,
  its own policy and the policy of its peer; the key share extension that computes it is not
  among the sources.  Section 4.3: "The server MUST mirror the client -- the client is
  authoritative", and so the driver's comment: "Client should always determine whether the
  Hybrid KEM used len_prefixed format, and server should match client's behavior".
\<close>

definition peer_len_prefixed ::
  "s2n_mode \<Rightarrow> s2n_security_policy \<Rightarrow> s2n_security_policy \<Rightarrow> bool" where
  "peer_len_prefixed mode local_policy peer_policy =
     must_use_hybrid_kem_length_prefix
       (kem_preferences (case mode of
                           S2N_CLIENT \<Rightarrow> local_policy
                         | S2N_SERVER \<Rightarrow> peer_policy))"

text \<open>
  Modelled from the spec: the outcome of selection, \<open>Selected\<close> of section 3 ("Hybrid{
  group, len_prefixed } | Classical{ curve }"), and the error kinds of section 7.
\<close>

datatype selected = Hybrid s2n_kem_group bool | Classical s2n_ecc_named_curve

datatype error_kind = NoMutualGroup | IllegalParameter | DecodeError | CryptoFailure | Unavailable

text \<open>
  Modelled from the spec: the two tiers of the selection engine of section 4.3, which is
  not among the sources.  The rule of each tier is the prediction function of the test.
  Step 1 asks for a client list that is not empty, and a tier without a client entry yields
  no group (step 3, and scenario 6 of section 8 for a client without KEM groups); the test
  does the same, calling the KEM predictor only when a KEM group is expected and checking
  \<^verbatim>\<open>client_policy->ecc_preferences->count > 0\<close> before the curve predictor.  A policy
  without a list of curves offers no curve.
\<close>

definition hybrid_tier ::
  "(s2n_kem_group \<Rightarrow> bool) \<Rightarrow> s2n_security_policy \<Rightarrow> s2n_security_policy
     \<Rightarrow> fault + s2n_kem_group option" where
  "hybrid_tier is_available client_sec_policy server_sec_policy =
     (case kem_preferences client_sec_policy of
        None \<Rightarrow> Inr None
      | Some k \<Rightarrow>
          if tls13_kem_group_count k = 0 then Inr None
          else s2n_get_predicted_negotiated_kem_group is_available
                 (Some k) (kem_preferences server_sec_policy))"

definition classical_tier ::
  "s2n_security_policy \<Rightarrow> s2n_security_policy \<Rightarrow> fault + s2n_ecc_named_curve option" where
  "classical_tier client_sec_policy server_sec_policy =
     (case ecc_preferences client_sec_policy of
        None \<Rightarrow> Inr None
      | Some e \<Rightarrow>
          if count e = 0 \<or> ecc_preferences server_sec_policy = None then Inr None
          else s2n_get_predicted_negotiated_ecdhe_curve
                 (Some client_sec_policy) (Some server_sec_policy))"

text \<open>
  Modelled from the spec: the selection engine as a whole, run by the server on its own
  policy and the client's.  The hybrid tier is asked first and wins when it yields a group
  ("If both PQ and classical intersections exist, PQ always wins"), with the wire format the
  client decided; the classical tier runs "the same two-tier rule over the curves list"
  otherwise; no curve either is error kind 1 of section 7.  A fault is a read outside an
  array of a policy whose count exceeds its entries.
\<close>

definition negotiate_key_exchange ::
  "(s2n_kem_group \<Rightarrow> bool) \<Rightarrow> s2n_security_policy \<Rightarrow> s2n_security_policy
     \<Rightarrow> fault + (error_kind + selected)" where
  "negotiate_key_exchange is_available client_sec_policy server_sec_policy =
     (case hybrid_tier is_available client_sec_policy server_sec_policy of
        Inl f \<Rightarrow> Inl f
      | Inr (Some g) \<Rightarrow>
          Inr (Inr (Hybrid g (peer_len_prefixed S2N_SERVER server_sec_policy client_sec_policy)))
      | Inr None \<Rightarrow>
          (case classical_tier client_sec_policy server_sec_policy of
             Inl f \<Rightarrow> Inl f
           | Inr (Some c) \<Rightarrow> Inr (Inr (Classical c))
           | Inr None \<Rightarrow> Inr (Inl NoMutualGroup)))"

section \<open>Sample values for the closed examples\<close>

subsection \<open>A scripted library\<close>

text \<open>
  A stand-in for the library that plays a handshake in which the group \<open>g\<close> is agreed,
  with a HelloRetryRequest in between when \<open>retry\<close> is set, and in which the client writes
  length-prefixed key shares when \<open>rule\<close> holds of the draft revision of its KEM
  preferences.  The \<open>internal\<close> state of a connection is its side and the number of I/O
  calls made on it; the message it is at is read off a script.  The constants are sample
  values.
\<close>

definition client_script :: "bool \<Rightarrow> message_type list" where
  "client_script retry =
     (if retry then
        [CLIENT_HELLO, SERVER_HELLO, CLIENT_CHANGE_CIPHER_SPEC, CLIENT_CHANGE_CIPHER_SPEC,
         CLIENT_HELLO, SERVER_HELLO]
      else [CLIENT_HELLO, SERVER_HELLO])"

definition server_script :: "bool \<Rightarrow> message_type list" where
  "server_script retry =
     (if retry then
        [CLIENT_HELLO, SERVER_HELLO, SERVER_CHANGE_CIPHER_SPEC, CLIENT_HELLO, CLIENT_HELLO,
         SERVER_HELLO]
      else [CLIENT_HELLO, SERVER_HELLO, SERVER_CHANGE_CIPHER_SPEC])"

definition message_at :: "message_type list \<Rightarrow> nat \<Rightarrow> message_type" where
  "message_at script n = (if n < length script then script ! n else OTHER_MESSAGE)"

definition scripted_message_type :: "bool \<Rightarrow> (s2n_mode \<times> nat) s2n_connection \<Rightarrow> message_type" where
  "scripted_message_type retry conn =
     (case internal conn of
        (S2N_CLIENT, n) \<Rightarrow> message_at (client_script retry) n
      | (S2N_SERVER, n) \<Rightarrow> message_at (server_script retry) n)"

definition blank_connection :: "s2n_mode \<Rightarrow> (s2n_mode \<times> nat) s2n_connection" where
  "blank_connection mode =
     \<lparr> actual_protocol_version = 0, handshake_type = 0, len_prefixed = False,
       kem_group = None, kem_params_kem = None, kem_group_negotiated_curve = None,
       negotiated_curve = None, cipher_suite = other_cipher_suite,
       extract_secret_type = OTHER_SECRET,
       extract_secret = (\<lambda>i. 0),
       client_handshake_secret = (\<lambda>i. 0),
       server_handshake_secret = (\<lambda>i. 0),
       security_policy_override = None,
       internal = (mode, 0) \<rparr>"

definition revision_of :: "s2n_security_policy option \<Rightarrow> nat" where
  "revision_of policy =
     (case policy of
        None \<Rightarrow> 0
      | Some p \<Rightarrow>
          (case kem_preferences p of
             None \<Rightarrow> 0
           | Some k \<Rightarrow> tls13_pq_hybrid_draft_revision k))"

definition calls :: "(s2n_mode \<times> nat) s2n_connection \<Rightarrow> nat" where
  "calls conn = snd (internal conn)"

definition called :: "(s2n_mode \<times> nat) s2n_connection \<Rightarrow> (s2n_mode \<times> nat) s2n_connection" where
  "called conn = conn\<lparr> internal := (fst (internal conn), Suc (snd (internal conn))) \<rparr>"

definition agree_on ::
  "s2n_kem_group \<Rightarrow> (s2n_mode \<times> nat) s2n_connection \<Rightarrow> (s2n_mode \<times> nat) s2n_connection" where
  "agree_on g conn =
     conn\<lparr> actual_protocol_version := 34,
           kem_group := Some g, kem_params_kem := Some (kem g),
           kem_group_negotiated_curve := Some (curve g), negotiated_curve := None,
           extract_secret_type := S2N_HANDSHAKE_SECRET,
           extract_secret := (\<lambda>i. if i < 32 then 1 else 0),
           client_handshake_secret := (\<lambda>i. if i < 32 then 2 else 0),
           server_handshake_secret := (\<lambda>i. if i < 32 then 3 else 0) \<rparr>"

definition scripted_write_io ::
  "(nat \<Rightarrow> bool) \<Rightarrow> s2n_mode \<Rightarrow> (s2n_mode \<times> nat) world \<Rightarrow> (s2n_mode \<times> nat) world option" where
  "scripted_write_io rule mode w =
     (case mode of
        S2N_CLIENT \<Rightarrow>
          Some (w\<lparr> client_conn := called
                     (if calls (client_conn w) = 0 then
                        (client_conn w)
                          \<lparr> actual_protocol_version := 34,
                            len_prefixed :=
                              rule (revision_of (security_policy_override (client_conn w))) \<rparr>
                      else client_conn w),
                   client_to_server := client_to_server w @ [1] \<rparr>)
      | S2N_SERVER \<Rightarrow>
          Some (w\<lparr> server_conn := called (server_conn w),
                   server_to_client := server_to_client w @ [2] \<rparr>))"

definition scripted_read_io ::
  "bool \<Rightarrow> s2n_kem_group \<Rightarrow> s2n_mode \<Rightarrow> (s2n_mode \<times> nat) world
     \<Rightarrow> (s2n_mode \<times> nat) world option" where
  "scripted_read_io retry g mode w =
     (case mode of
        S2N_SERVER \<Rightarrow>
          Some (w\<lparr> server_conn := called
                     (if calls (server_conn w) = 0 then
                        agree_on g
                          ((server_conn w)\<lparr> len_prefixed := len_prefixed (client_conn w) \<rparr>)
                      else server_conn w),
                   client_to_server := tl (client_to_server w) \<rparr>)
      | S2N_CLIENT \<Rightarrow>
          Some (w\<lparr> client_conn := called
                     (if calls (client_conn w) = (if retry then 5 else 1) then
                        agree_on g (client_conn w)
                      else client_conn w),
                   server_to_client := tl (server_to_client w) \<rparr>))"

definition scripted_set_handshake_type ::
  "bool \<Rightarrow> s2n_mode \<Rightarrow> (s2n_mode \<times> nat) world \<Rightarrow> (s2n_mode \<times> nat) world option" where
  "scripted_set_handshake_type retry mode w =
     (if retry then
        (case mode of
           S2N_CLIENT \<Rightarrow>
             Some (w\<lparr> client_conn := (client_conn w)
                        \<lparr> handshake_type := handshake_type (client_conn w) OR 2 \<rparr> \<rparr>)
         | S2N_SERVER \<Rightarrow>
             Some (w\<lparr> server_conn := (server_conn w)
                        \<lparr> handshake_type := handshake_type (server_conn w) OR 2 \<rparr> \<rparr>))
      else Some w)"

definition scripted_handshake ::
  "bool \<Rightarrow> (nat \<Rightarrow> bool) \<Rightarrow> s2n_kem_group \<Rightarrow> (s2n_mode \<times> nat) library" where
  "scripted_handshake retry rule g =
     \<lparr> S2N_TLS13 = 34,
       INITIAL = 0,
       HELLO_RETRY_REQUEST = 2,
       set_up_connections =
         Some \<lparr> client_conn = blank_connection S2N_CLIENT,
                server_conn = blank_connection S2N_SERVER,
                client_to_server = [], server_to_client = [],
                environment = (S2N_SERVER, 0) \<rparr>,
       s2n_conn_get_current_message_type = scripted_message_type retry,
       s2n_handshake_write_io = scripted_write_io rule,
       s2n_handshake_read_io = scripted_read_io retry g,
       s2n_conn_set_handshake_type = scripted_set_handshake_type retry,
       s2n_handshake_type_check_tls13_flag = (\<lambda>conn flag. handshake_type conn AND flag \<noteq> 0),
       s2n_tls13_client_must_use_hybrid_kem_length_prefix =
         (\<lambda>prefs. case prefs of
                     None \<Rightarrow> False
                   | Some k \<Rightarrow> rule (tls13_pq_hybrid_draft_revision k)),
       s2n_connection_get_kem_group_name = get_kem_group_name,
       s2n_connection_get_curve = get_curve,
       s2n_connection_get_key_exchange_group =
         (\<lambda>conn. Some (if kem_group conn = None then get_curve conn
                        else get_kem_group_name conn)),
       s2n_tls13_connection_keys = (\<lambda>conn. Some 32),
       clean_up = (\<lambda>w. Some ()) \<rparr>"

definition sample_ecc_tables :: ecc_preference_tables where
  "sample_ecc_tables =
     \<lparr> s2n_ecc_preferences_20200310 = ecc_prefs_of [sample_x25519, sample_secp256r1, sample_secp384r1],
       s2n_ecc_preferences_20201021 = ecc_prefs_of [sample_secp256r1, sample_secp384r1],
       s2n_ecc_preferences_20240603 = ecc_prefs_of [sample_secp256r1, sample_x25519, sample_secp384r1] \<rparr>"

text \<open>
  A provider with the generic KEM interface and without the EVP APIs, the availability that
  the KEM preferences test asserts of it (the groups over \<open>x25519\<close> are unavailable, the
  other Kyber groups available), and the key shares of a ClientHello that holds one for
  \<open>secp256r1_kyber-512-r3\<close>.
\<close>

definition libcrypto_without_evp_apis :: libcrypto where
  "libcrypto_without_evp_apis =
     \<lparr> s2n_libcrypto_supports_evp_kem = True,
       s2n_is_evp_apis_supported = False,
       s2n_libcrypto_supports_mlkem = False \<rparr>"

definition available_without_x25519 :: "s2n_kem_group \<Rightarrow> bool" where
  "available_without_x25519 g = (curve g \<noteq> X25519)"

definition sample_key_shares :: "16 word \<rightharpoonup> 8 word list" where
  "sample_key_shares = [0x2F3A \<mapsto> [1, 2, 3]]"

text \<open>
  The two rules for the length prefix: the one the test vectors follow and the one of the
  sentence of section 4.3.
\<close>

definition draft0_rule :: "nat \<Rightarrow> bool" where
  "draft0_rule revision = (revision = 0)"

definition draft5_rule :: "nat \<Rightarrow> bool" where
  "draft5_rule revision = (revision = 5)"

section \<open>The server's handshake state machine\<close>

text \<open>
  Modelled from the spec: the handshake state machine of the server, whose code
  (\<^verbatim>\<open>tls/s2n_handshake_io.c\<close>) is not among the sources.  The states and the edges are
  those of the diagram of section 4.4; the context is \<open>HandshakeContext\<close> of section 3 as
  far as the edges read it.  "On HRR, the HELLO_RETRY_REQUEST flag is set in
  handshake_type_flags"; "A server that issued HRR and then receives a second ClientHello
  that still does not include a key share for the indicated group MUST abort with an
  illegal-parameter error"; \<open>APPLICATION_DATA\<close> and \<open>ABORTED\<close> are terminal.  The
  selection engine is the parameter \<open>select\<close>, from the key shares of the ClientHello to
  the identifier of the selected group or an error; the bit of the flag is the parameter
  \<open>hrr_flag\<close>.  A step yields the next context and the message the server emits, if any.
  An input that no edge of the diagram takes aborts the handshake, except that a server
  waiting for a ClientHello keeps waiting.  The last three states are the client's.
\<close>

datatype handshake_state =
  EXPECT_CLIENT_HELLO | SELECTING | SEND_HRR | EXPECT_CH2 | SELECTING2 | SEND_SERVER_HELLO
  | DERIVE_HS_SECRETS | REMAINING_MESSAGES | APPLICATION_DATA | ABORTED
  | SEND_CLIENT_HELLO | EXPECT_SERVER_HELLO | SEND_CH2

record handshake_context =
  state :: handshake_state
  handshake_type_flags :: "32 word"
  peer_key_shares :: "16 word \<rightharpoonup> 8 word list"
  negotiated :: "16 word option"

datatype server_input = Recv_Client_Hello "16 word \<rightharpoonup> 8 word list" | Advance

datatype server_output = Hello_Retry_Request "16 word" | Server_Hello "16 word" | Alert error_kind

definition abort :: "handshake_context \<Rightarrow> error_kind \<Rightarrow> handshake_context \<times> server_output option" where
  "abort c e = (c\<lparr> state := ABORTED \<rparr>, Some (Alert e))"

fun server_step ::
  "((16 word \<rightharpoonup> 8 word list) \<Rightarrow> error_kind + 16 word) \<Rightarrow> 32 word \<Rightarrow> server_input
     \<Rightarrow> handshake_context \<Rightarrow> handshake_context \<times> server_output option" where
  "server_step select hrr_flag input c =
     (case (state c, input) of
        (EXPECT_CLIENT_HELLO, Recv_Client_Hello shares) \<Rightarrow>
          (c\<lparr> state := SELECTING, peer_key_shares := shares \<rparr>, None)
      | (EXPECT_CLIENT_HELLO, Advance) \<Rightarrow> (c, None)
      | (SELECTING, Advance) \<Rightarrow>
          (case select (peer_key_shares c) of
             Inl e \<Rightarrow> abort c e
           | Inr gid \<Rightarrow>
               if requires_hrr (peer_key_shares c) gid
               then (c\<lparr> state := SEND_HRR, negotiated := Some gid \<rparr>, None)
               else (c\<lparr> state := SEND_SERVER_HELLO, negotiated := Some gid \<rparr>, None))
      | (SEND_HRR, Advance) \<Rightarrow>
          (case negotiated c of
             None \<Rightarrow> abort c IllegalParameter
           | Some gid \<Rightarrow>
               (c\<lparr> state := EXPECT_CH2,
                   handshake_type_flags := handshake_type_flags c OR hrr_flag \<rparr>,
                Some (Hello_Retry_Request gid)))
      | (EXPECT_CH2, Recv_Client_Hello shares) \<Rightarrow>
          (c\<lparr> state := SELECTING2, peer_key_shares := shares \<rparr>, None)
      | (EXPECT_CH2, Advance) \<Rightarrow> (c, None)
      | (SELECTING2, Advance) \<Rightarrow>
          (case negotiated c of
             None \<Rightarrow> abort c IllegalParameter
           | Some gid \<Rightarrow>
               if requires_hrr (peer_key_shares c) gid
               then abort c IllegalParameter
               else (c\<lparr> state := SEND_SERVER_HELLO \<rparr>, None))
      | (SEND_SERVER_HELLO, Advance) \<Rightarrow>
          (case negotiated c of
             None \<Rightarrow> abort c IllegalParameter
           | Some gid \<Rightarrow> (c\<lparr> state := DERIVE_HS_SECRETS \<rparr>, Some (Server_Hello gid)))
      | (DERIVE_HS_SECRETS, Advance) \<Rightarrow> (c\<lparr> state := REMAINING_MESSAGES \<rparr>, None)
      | (REMAINING_MESSAGES, Advance) \<Rightarrow> (c\<lparr> state := APPLICATION_DATA \<rparr>, None)
      | (APPLICATION_DATA, _) \<Rightarrow> (c, None)
      | (ABORTED, _) \<Rightarrow> (c, None)
      | (_, _) \<Rightarrow> abort c IllegalParameter)"

text \<open>A run over a list of inputs: the last context and the messages emitted, in order.\<close>

fun server_run ::
  "((16 word \<rightharpoonup> 8 word list) \<Rightarrow> error_kind + 16 word) \<Rightarrow> 32 word \<Rightarrow> server_input list
     \<Rightarrow> handshake_context \<Rightarrow> handshake_context \<times> server_output list" where
  "server_run select hrr_flag [] c = (c, [])"
| "server_run select hrr_flag (input # inputs) c =
     (case server_step select hrr_flag input c of
        (c', out) \<Rightarrow>
          (case server_run select hrr_flag inputs c' of
             (c'', outs) \<Rightarrow> (c'', (case out of None \<Rightarrow> [] | Some m \<Rightarrow> [m]) @ outs)))"

definition initial_context :: "32 word \<Rightarrow> handshake_context" where
  "initial_context flags =
     \<lparr> state = EXPECT_CLIENT_HELLO, handshake_type_flags = flags,
       peer_key_shares = Map.empty, negotiated = None \<rparr>"

definition flag_set :: "32 word \<Rightarrow> handshake_context \<Rightarrow> bool" where
  "flag_set hrr_flag c = (handshake_type_flags c AND hrr_flag \<noteq> 0)"

fun is_hrr :: "server_output \<Rightarrow> bool" where
  "is_hrr (Hello_Retry_Request gid) = True"
| "is_hrr (Server_Hello gid) = False"
| "is_hrr (Alert e) = False"

text \<open>How far along the diagram a state is; no edge leads back.\<close>

fun progress :: "handshake_state \<Rightarrow> nat" where
  "progress EXPECT_CLIENT_HELLO = 0"
| "progress SELECTING = 1"
| "progress SEND_HRR = 2"
| "progress EXPECT_CH2 = 3"
| "progress SELECTING2 = 4"
| "progress SEND_SERVER_HELLO = 5"
| "progress DERIVE_HS_SECRETS = 6"
| "progress REMAINING_MESSAGES = 7"
| "progress APPLICATION_DATA = 8"
| "progress ABORTED = 9"
| "progress SEND_CLIENT_HELLO = 9"
| "progress EXPECT_SERVER_HELLO = 9"
| "progress SEND_CH2 = 9"

text \<open>
  Modelled from the spec: the client's side of the state machine, of which section 4.4
  says that it mirrors the server's: "on HRR it regenerates only the key share for the
  newly indicated group, re-sends ClientHello with identical extensions otherwise, and
  asserts the server's choice is consistent with its second offer"; its initial state is
  \<open>SEND_CLIENT_HELLO\<close> (section 3).  \<open>negotiated\<close> holds the group the client last sent
  a key share for.  Whether a retry has happened is the flag and no state of its own
  (section 9); a second retry request aborts the handshake.
\<close>

datatype client_input = Recv_From_Server server_output | Proceed

datatype client_output = Client_Hello "16 word option"

fun client_step ::
  "32 word \<Rightarrow> client_input \<Rightarrow> handshake_context
     \<Rightarrow> handshake_context \<times> client_output option" where
  "client_step hrr_flag input c =
     (case (state c, input) of
        (SEND_CLIENT_HELLO, Proceed) \<Rightarrow>
          (c\<lparr> state := EXPECT_SERVER_HELLO \<rparr>, Some (Client_Hello (negotiated c)))
      | (EXPECT_SERVER_HELLO, Recv_From_Server (Hello_Retry_Request gid)) \<Rightarrow>
          if handshake_type_flags c AND hrr_flag \<noteq> 0
          then (c\<lparr> state := ABORTED \<rparr>, None)
          else (c\<lparr> state := SEND_CH2,
                    handshake_type_flags := handshake_type_flags c OR hrr_flag,
                    negotiated := Some gid \<rparr>, None)
      | (EXPECT_SERVER_HELLO, Recv_From_Server (Server_Hello gid)) \<Rightarrow>
          if negotiated c = Some gid
          then (c\<lparr> state := DERIVE_HS_SECRETS \<rparr>, None)
          else (c\<lparr> state := ABORTED \<rparr>, None)
      | (EXPECT_SERVER_HELLO, Proceed) \<Rightarrow> (c, None)
      | (SEND_CH2, Proceed) \<Rightarrow>
          (c\<lparr> state := EXPECT_SERVER_HELLO \<rparr>, Some (Client_Hello (negotiated c)))
      | (DERIVE_HS_SECRETS, Proceed) \<Rightarrow> (c\<lparr> state := REMAINING_MESSAGES \<rparr>, None)
      | (REMAINING_MESSAGES, Proceed) \<Rightarrow> (c\<lparr> state := APPLICATION_DATA \<rparr>, None)
      | (APPLICATION_DATA, _) \<Rightarrow> (c, None)
      | (_, _) \<Rightarrow> (c\<lparr> state := ABORTED \<rparr>, None))"

fun client_run ::
  "32 word \<Rightarrow> client_input list \<Rightarrow> handshake_context
     \<Rightarrow> handshake_context \<times> client_output list" where
  "client_run hrr_flag [] c = (c, [])"
| "client_run hrr_flag (input # inputs) c =
     (case client_step hrr_flag input c of
        (c', out) \<Rightarrow>
          (case client_run hrr_flag inputs c' of
             (c'', outs) \<Rightarrow> (c'', (case out of None \<Rightarrow> [] | Some m \<Rightarrow> [m]) @ outs)))"

definition initial_client_context :: "32 word \<Rightarrow> 16 word \<Rightarrow> handshake_context" where
  "initial_client_context flags first_choice =
     \<lparr> state = SEND_CLIENT_HELLO, handshake_type_flags = flags,
       peer_key_shares = Map.empty, negotiated = Some first_choice \<rparr>"

text \<open>
  A selection engine for the closed examples: the group 0x2F39 when it is among the key
  shares, and otherwise the group 0x2F3D, for which the client then has to retry.
\<close>

definition sample_select :: "(16 word \<rightharpoonup> 8 word list) \<Rightarrow> error_kind + 16 word" where
  "sample_select shares = (if shares 0x2F39 = None then Inr 0x2F3D else Inr 0x2F39)"

definition sample_retry_inputs :: "server_input list" where
  "sample_retry_inputs =
     [Recv_Client_Hello [0x2F3A \<mapsto> [1]], Advance, Advance,
      Recv_Client_Hello [0x2F3D \<mapsto> [2]], Advance, Advance, Advance, Advance,
      Recv_Client_Hello [0x2F3A \<mapsto> [3]], Advance]"

section \<open>Properties of the KEM group predictor\<close>

declare kem_default_loop.simps [simp del]
declare kem_client_loop.simps [simp del]
declare kem_server_loop.simps [simp del]
declare ecc_default_loop.simps [simp del]
declare ecc_client_loop.simps [simp del]
declare ecc_server_loop.simps [simp del]

lemma kem_default_loop_returns:
  "kem_default_loop av d sp i = Inr (Return (Some g)) \<Longrightarrow>
     g = d \<and> av d \<and> (\<exists>s \<in> groups_within sp. av s \<and> iana_id s = iana_id d)"
proof (induction av d sp i rule: kem_default_loop.induct)
  case (1 av d sp i)
  note unfold = kem_default_loop.simps [of av d sp i]
  show ?case
  proof (cases "i < tls13_kem_group_count sp \<and> i < length (tls13_kem_groups sp)")
    case False
    with "1.prems" show ?thesis
      by (auto simp: unfold array_read_def split: if_splits)
  next
    case True
    then have mem: "tls13_kem_groups sp ! i
        \<in> set (take (tls13_kem_group_count sp) (tls13_kem_groups sp))"
      by (metis in_set_conv_nth length_take min_less_iff_conj nth_take)
    show ?thesis
    proof (cases "tls13_kem_groups sp ! i")
      case None
      with True "1.prems" show ?thesis
        by (simp add: unfold array_read_def)
    next
      case (Some s)
      show ?thesis
      proof (cases "av d \<and> av s \<and> iana_id d = iana_id s")
        case hit: True
        with True Some "1.prems" have "g = d"
          by (simp add: unfold array_read_def)
        moreover from mem Some have "s \<in> groups_within sp"
          by (simp add: groups_within_def)
        ultimately show ?thesis using hit by auto
      next
        case miss: False
        with True Some "1.prems"
        have "kem_default_loop av d sp (Suc i) = Inr (Return (Some g))"
          by (auto simp: unfold array_read_def)
        with "1.IH" [of "tls13_kem_groups sp ! i" s] True Some miss show ?thesis
          by (auto simp: array_read_def)
      qed
    qed
  qed
qed


lemma kem_client_loop_returns:
  "kem_client_loop av sgo cp j = Inr (Return (Some g)) \<Longrightarrow>
     av g \<and> g \<in> groups_within cp \<and> (\<exists>sg. sgo = Some sg \<and> av sg \<and> iana_id g = iana_id sg)"
proof (induction av sgo cp j rule: kem_client_loop.induct)
  case (1 av sgo cp j)
  note unfold = kem_client_loop.simps [of av _ cp j]
  show ?case
  proof (cases "j < tls13_kem_group_count cp \<and> j < length (tls13_kem_groups cp)")
    case False
    with "1.prems" show ?thesis
      by (auto simp: unfold array_read_def split: if_splits)
  next
    case True
    then have mem: "tls13_kem_groups cp ! j
        \<in> set (take (tls13_kem_group_count cp) (tls13_kem_groups cp))"
      by (metis in_set_conv_nth length_take min_less_iff_conj nth_take)
    show ?thesis
    proof (cases "tls13_kem_groups cp ! j")
      case None
      with True "1.prems" show ?thesis
        by (simp add: unfold array_read_def)
    next
      case c: (Some c)
      show ?thesis
      proof (cases sgo)
        case None
        with True c "1.prems" show ?thesis
          by (simp add: unfold array_read_def)
      next
        case sg: (Some sg)
        show ?thesis
        proof (cases "av c \<and> av sg \<and> iana_id c = iana_id sg")
          case hit: True
          with True c sg "1.prems" have "g = c"
            by (simp add: unfold array_read_def)
          moreover from mem c have "c \<in> groups_within cp"
            by (simp add: groups_within_def)
          ultimately show ?thesis using hit sg by auto
        next
          case miss: False
          with True c sg "1.prems"
          have "kem_client_loop av sgo cp (Suc j) = Inr (Return (Some g))"
            by (auto simp: unfold array_read_def)
          with "1.IH" [of "tls13_kem_groups cp ! j" c sg] True c sg miss show ?thesis
            by (auto simp: array_read_def)
        qed
      qed
    qed
  qed
qed

lemma kem_server_loop_returns:
  "kem_server_loop av cp sp i = Inr (Return (Some g)) \<Longrightarrow>
     av g \<and> g \<in> groups_within cp
       \<and> (\<exists>s \<in> groups_within sp. av s \<and> iana_id s = iana_id g)"
proof (induction av cp sp i rule: kem_server_loop.induct)
  case (1 av cp sp i)
  note unfold = kem_server_loop.simps [of av cp sp i]
  show ?case
  proof (cases "i < tls13_kem_group_count sp \<and> i < length (tls13_kem_groups sp)")
    case False
    with "1.prems" show ?thesis
      by (auto simp: unfold array_read_def split: if_splits)
  next
    case True
    then have mem: "tls13_kem_groups sp ! i
        \<in> set (take (tls13_kem_group_count sp) (tls13_kem_groups sp))"
      by (metis in_set_conv_nth length_take min_less_iff_conj nth_take)
    let ?sgo = "tls13_kem_groups sp ! i"
    from True have rd: "array_read (tls13_kem_groups sp) i = Inr ?sgo"
      by (simp add: array_read_def)
    show ?thesis
    proof (cases "kem_client_loop av ?sgo cp 1")
      case (Inl f)
      with True rd "1.prems" show ?thesis
        by (simp add: unfold)
    next
      case (Inr fl)
      show ?thesis
      proof (cases fl)
        case (Return r)
        with Inr True rd "1.prems" have "kem_client_loop av ?sgo cp 1 = Inr (Return (Some g))"
          by (simp add: unfold)
        from kem_client_loop_returns [OF this] mem show ?thesis
          by (auto simp: groups_within_def)
      next
        case Fell_Through
        with Inr True rd "1.prems"
        have "kem_server_loop av cp sp (Suc i) = Inr (Return (Some g))"
          by (simp add: unfold)
        with "1.IH" [OF _ rd Inr Fell_Through] True show ?thesis
          by simp
      qed
    qed
  qed
qed

lemma array_read_prefs:
  "i < length gs \<Longrightarrow> array_read (tls13_kem_groups (kem_prefs_of gs r)) i = Inr (Some (gs ! i))"
  by (simp add: array_read_def kem_prefs_of_def)

lemma count_prefs: "tls13_kem_group_count (kem_prefs_of gs r) = length gs"
  by (simp add: kem_prefs_of_def)

lemma kem_default_loop_prefs:
  "kem_default_loop av d (kem_prefs_of S r) i =
     Inr (if av d \<and> list_ex (\<lambda>s. av s \<and> iana_id s = iana_id d) (drop i S)
          then Return (Some d) else Fell_Through)"
proof (induction "length S - i" arbitrary: i)
  case 0
  then show ?case
    by (simp add: kem_default_loop.simps [of av d _ i] count_prefs)
next
  case (Suc n)
  then have lt: "i < length S" by simp
  from Suc have IH: "kem_default_loop av d (kem_prefs_of S r) (Suc i) =
     Inr (if av d \<and> list_ex (\<lambda>s. av s \<and> iana_id s = iana_id d) (drop (Suc i) S)
          then Return (Some d) else Fell_Through)"
    by simp
  have split: "drop i S = S ! i # drop (Suc i) S"
    using lt by (simp add: Cons_nth_drop_Suc)
  show ?case
    by (subst kem_default_loop.simps)
       (auto simp: count_prefs lt array_read_prefs split IH)
qed

lemma kem_client_loop_prefs:
  "kem_client_loop av (Some sg) (kem_prefs_of C r) j =
     Inr (case find (\<lambda>c. av c \<and> av sg \<and> iana_id c = iana_id sg) (drop j C) of
            Some c \<Rightarrow> Return (Some c)
          | None \<Rightarrow> Fell_Through)"
proof (induction "length C - j" arbitrary: j)
  case 0
  then show ?case
    by (simp add: kem_client_loop.simps [of av _ _ j] count_prefs)
next
  case (Suc n)
  then have lt: "j < length C" by simp
  from Suc have IH: "kem_client_loop av (Some sg) (kem_prefs_of C r) (Suc j) =
     Inr (case find (\<lambda>c. av c \<and> av sg \<and> iana_id c = iana_id sg) (drop (Suc j) C) of
            Some c \<Rightarrow> Return (Some c)
          | None \<Rightarrow> Fell_Through)"
    by simp
  have split: "drop j C = C ! j # drop (Suc j) C"
    using lt by (simp add: Cons_nth_drop_Suc)
  show ?case
    by (subst kem_client_loop.simps)
       (auto simp: count_prefs lt array_read_prefs split IH)
qed


lemma second_tier_Nil: "second_tier av ident later [] = None"
  by (simp add: second_tier_def)

lemma second_tier_Cons:
  "second_tier av ident later (s # S) =
     (case find (\<lambda>c. av c \<and> av s \<and> ident c = ident s) later of
        Some c \<Rightarrow> Some c
      | None \<Rightarrow> second_tier av ident later S)"
proof (cases "av s")
  case False
  then have "find (\<lambda>c. av c \<and> av s \<and> ident c = ident s) later = None"
    by (simp add: find_None_iff)
  with False show ?thesis
    by (simp add: second_tier_def)
next
  case True
  then have same: "(\<lambda>c. av c \<and> av s \<and> ident c = ident s) = (\<lambda>c. av c \<and> ident c = ident s)"
    by auto
  show ?thesis
  proof (cases "find (\<lambda>c. av c \<and> ident c = ident s) later")
    case None
    then have "\<not> list_ex (\<lambda>c. av c \<and> ident c = ident s) later"
      by (simp add: find_None_iff list_ex_iff)
    with None True show ?thesis
      by (simp add: second_tier_def same)
  next
    case (Some c)
    then have "find (\<lambda>c. av c \<and> ident c = ident s) later \<noteq> None"
      by simp
    then have "list_ex (\<lambda>c. av c \<and> ident c = ident s) later"
      by (auto simp: find_None_iff list_ex_iff)
    with Some True show ?thesis
      by (simp add: second_tier_def same)
  qed
qed

lemma kem_server_loop_prefs:
  "kem_server_loop av (kem_prefs_of C r) (kem_prefs_of S r') i =
     Inr (case second_tier av iana_id (drop 1 C) (drop i S) of
            Some c \<Rightarrow> Return (Some c)
          | None \<Rightarrow> Fell_Through)"
proof (induction "length S - i" arbitrary: i)
  case 0
  then show ?case
    by (simp add: kem_server_loop.simps [of av _ _ i] count_prefs second_tier_Nil)
next
  case (Suc n)
  then have lt: "i < length S" by simp
  from Suc have IH: "kem_server_loop av (kem_prefs_of C r) (kem_prefs_of S r') (Suc i) =
     Inr (case second_tier av iana_id (drop 1 C) (drop (Suc i) S) of
            Some c \<Rightarrow> Return (Some c)
          | None \<Rightarrow> Fell_Through)"
    by simp
  have split: "drop i S = S ! i # drop (Suc i) S"
    using lt by (simp add: Cons_nth_drop_Suc)
  show ?case
    by (subst kem_server_loop.simps)
       (simp add: count_prefs lt array_read_prefs split IH kem_client_loop_prefs
          second_tier_Cons split: option.splits)
qed

lemma predicted_kem_group_two_tier:
  assumes "C \<noteq> []"
  shows "s2n_get_predicted_negotiated_kem_group av
           (Some (kem_prefs_of C r)) (Some (kem_prefs_of S r'))
         = Inr (two_tier_select av iana_id C S)"
proof -
  from assms obtain d C' where C: "C = d # C'"
    by (cases C) auto
  have rd: "array_read (tls13_kem_groups (kem_prefs_of (d # C') r)) 0 = Inr (Some d)"
    using array_read_prefs [of 0 "d # C'" r] by simp
  show ?thesis
    unfolding s2n_get_predicted_negotiated_kem_group_def C
    by (simp add: rd kem_default_loop_prefs kem_server_loop_prefs two_tier_select_def
          fast_path_def split: option.splits)
qed


section \<open>Properties of the curve predictor\<close>

lemma array_read_ecc:
  "i < length cs \<Longrightarrow> array_read (ecc_curves (ecc_prefs_of cs)) i = Inr (Some (cs ! i))"
  by (simp add: array_read_def ecc_prefs_of_def)

lemma count_ecc: "count (ecc_prefs_of cs) = length cs"
  by (simp add: ecc_prefs_of_def)

lemma ecc_default_loop_prefs:
  "ecc_default_loop d (ecc_prefs_of S) i =
     Inr (if list_ex (\<lambda>s. ecc_iana_id s = ecc_iana_id d) (drop i S)
          then Return (Some d) else Fell_Through)"
proof (induction "length S - i" arbitrary: i)
  case 0
  then show ?case
    by (simp add: ecc_default_loop.simps [of d _ i] count_ecc)
next
  case (Suc n)
  then have lt: "i < length S" by simp
  from Suc have IH: "ecc_default_loop d (ecc_prefs_of S) (Suc i) =
     Inr (if list_ex (\<lambda>s. ecc_iana_id s = ecc_iana_id d) (drop (Suc i) S)
          then Return (Some d) else Fell_Through)"
    by simp
  have split: "drop i S = S ! i # drop (Suc i) S"
    using lt by (simp add: Cons_nth_drop_Suc)
  show ?case
    by (subst ecc_default_loop.simps)
       (auto simp: count_ecc lt array_read_ecc split IH)
qed

lemma ecc_client_loop_prefs:
  "ecc_client_loop (Some sc) (ecc_prefs_of C) j =
     Inr (case find (\<lambda>c. ecc_iana_id c = ecc_iana_id sc) (drop j C) of
            Some c \<Rightarrow> Return (Some c)
          | None \<Rightarrow> Fell_Through)"
proof (induction "length C - j" arbitrary: j)
  case 0
  then show ?case
    by (simp add: ecc_client_loop.simps [of _ _ j] count_ecc)
next
  case (Suc n)
  then have lt: "j < length C" by simp
  from Suc have IH: "ecc_client_loop (Some sc) (ecc_prefs_of C) (Suc j) =
     Inr (case find (\<lambda>c. ecc_iana_id c = ecc_iana_id sc) (drop (Suc j) C) of
            Some c \<Rightarrow> Return (Some c)
          | None \<Rightarrow> Fell_Through)"
    by simp
  have split: "drop j C = C ! j # drop (Suc j) C"
    using lt by (simp add: Cons_nth_drop_Suc)
  show ?case
    by (subst ecc_client_loop.simps)
       (auto simp: count_ecc lt array_read_ecc split IH)
qed

lemma ecc_server_loop_prefs:
  "ecc_server_loop (ecc_prefs_of C) (ecc_prefs_of S) i =
     Inr (case second_tier (\<lambda>_. True) ecc_iana_id (drop 1 C) (drop i S) of
            Some c \<Rightarrow> Return (Some c)
          | None \<Rightarrow> Fell_Through)"
proof (induction "length S - i" arbitrary: i)
  case 0
  then show ?case
    by (simp add: ecc_server_loop.simps [of _ _ i] count_ecc second_tier_Nil)
next
  case (Suc n)
  then have lt: "i < length S" by simp
  from Suc have IH: "ecc_server_loop (ecc_prefs_of C) (ecc_prefs_of S) (Suc i) =
     Inr (case second_tier (\<lambda>_. True) ecc_iana_id (drop 1 C) (drop (Suc i) S) of
            Some c \<Rightarrow> Return (Some c)
          | None \<Rightarrow> Fell_Through)"
    by simp
  have split: "drop i S = S ! i # drop (Suc i) S"
    using lt by (simp add: Cons_nth_drop_Suc)
  show ?case
    by (subst ecc_server_loop.simps)
       (simp add: count_ecc lt array_read_ecc split IH ecc_client_loop_prefs
          second_tier_Cons [of "\<lambda>_. True", simplified] split: option.splits)
qed

lemma predicted_ecdhe_two_tier:
  assumes "C \<noteq> []"
  shows "s2n_get_predicted_negotiated_ecdhe_curve
           (Some (policy_of kp (ecc_prefs_of C))) (Some (policy_of kp' (ecc_prefs_of S)))
         = Inr (two_tier_select (\<lambda>_. True) ecc_iana_id C S)"
proof -
  from assms obtain d C' where C: "C = d # C'"
    by (cases C) auto
  have rd: "array_read (ecc_curves (ecc_prefs_of (d # C'))) 0 = Inr (Some d)"
    using array_read_ecc [of 0 "d # C'"] by simp
  show ?thesis
    unfolding s2n_get_predicted_negotiated_ecdhe_curve_def C
    by (simp add: rd policy_of_def ecc_default_loop_prefs ecc_server_loop_prefs
          two_tier_select_def fast_path_def split: option.splits)
qed

lemma two_tier_select_none:
  assumes "\<not> (\<exists>c \<in> set C. \<exists>s \<in> set S. av c \<and> av s \<and> ident c = ident s)"
  shows "two_tier_select av ident C S = None"
proof (cases C)
  case Nil
  then show ?thesis by (simp add: two_tier_select_def)
next
  case (Cons d C')
  from assms Cons have "\<not> fast_path av ident d S"
    by (auto simp: fast_path_def list_ex_iff)
  moreover from assms Cons
  have "find (\<lambda>s. av s \<and> list_ex (\<lambda>c. av c \<and> ident c = ident s) C') S = None"
    by (auto simp: find_None_iff list_ex_iff)
  ultimately show ?thesis
    using Cons by (simp add: two_tier_select_def second_tier_def)
qed


section \<open>Properties of the selection engine\<close>

lemma hybrid_tier_two_tier:
  "hybrid_tier av (policy_of (kem_prefs_of C r) e) (policy_of (kem_prefs_of S r') e')
     = Inr (two_tier_select av iana_id C S)"
proof (cases "C = []")
  case True
  then show ?thesis
    by (simp add: hybrid_tier_def policy_of_def kem_prefs_of_def two_tier_select_def)
next
  case False
  then show ?thesis
    by (simp add: hybrid_tier_def policy_of_def count_prefs predicted_kem_group_two_tier)
qed

lemma classical_tier_two_tier:
  "classical_tier (policy_of k (ecc_prefs_of CC)) (policy_of k' (ecc_prefs_of SC))
     = Inr (two_tier_select (\<lambda>_. True) ecc_iana_id CC SC)"
proof (cases "CC = []")
  case True
  then show ?thesis
    by (simp add: classical_tier_def policy_of_def ecc_prefs_of_def two_tier_select_def)
next
  case False
  have "ecc_preferences (policy_of k (ecc_prefs_of CC)) = Some (ecc_prefs_of CC)"
    "ecc_preferences (policy_of k' (ecc_prefs_of SC)) = Some (ecc_prefs_of SC)"
    by (simp_all add: policy_of_def)
  with False show ?thesis
    by (simp add: classical_tier_def count_ecc predicted_ecdhe_two_tier)
qed

lemma negotiate_two_tier:
  "negotiate_key_exchange av
       (policy_of (kem_prefs_of C r) (ecc_prefs_of CC))
       (policy_of (kem_prefs_of S r') (ecc_prefs_of SC))
     = Inr (case two_tier_select av iana_id C S of
              Some g \<Rightarrow> Inr (Hybrid g (r = 0))
            | None \<Rightarrow>
                (case two_tier_select (\<lambda>_. True) ecc_iana_id CC SC of
                   Some c \<Rightarrow> Inr (Classical c)
                 | None \<Rightarrow> Inl NoMutualGroup))"
  unfolding negotiate_key_exchange_def hybrid_tier_two_tier classical_tier_two_tier
  by (simp add: peer_len_prefixed_def must_use_hybrid_kem_length_prefix_def policy_of_def
        kem_prefs_of_def split: option.splits)

lemma negotiated_hybrid_prefix:
  assumes "negotiate_key_exchange av cpol spol = Inr (Inr (Hybrid g lp))"
  shows "lp = peer_len_prefixed S2N_SERVER spol cpol"
    and "\<exists>k. kem_preferences cpol = Some k"
  using assms
  by (auto simp: negotiate_key_exchange_def hybrid_tier_def
        split: sum.splits option.splits if_splits)


section \<open>Claims about the selection rule\<close>

text \<open>
  C10.  Whenever \<^verbatim>\<open>s2n_get_predicted_negotiated_kem_group\<close> returns a group (a pointer
  that is not \<^verbatim>\<open>NULL\<close>), for any two preference structures and any availability
  predicate: the group is available, it is an entry of the client's array, and the server's
  array holds, within its count, an available group with the same \<open>iana_id\<close>.  So a group
  that is not available is never returned, also when it is the only match by \<open>iana_id\<close>.
\<close>

theorem predicted_kem_group_available_and_mutual:
  assumes "s2n_get_predicted_negotiated_kem_group av client_prefs server_prefs = Inr (Some g)"
  shows "av g \<and>
         (\<exists>cp sp. client_prefs = Some cp \<and> server_prefs = Some sp
            \<and> Some g \<in> set (tls13_kem_groups cp)
            \<and> (\<exists>s. Some s \<in> set (tls13_kem_groups sp) \<and> av s \<and> iana_id s = iana_id g))"
proof -
  from assms obtain cp sp where cp: "client_prefs = Some cp" and sp: "server_prefs = Some sp"
    by (auto simp: s2n_get_predicted_negotiated_kem_group_def split: option.splits)
  from assms cp sp obtain d where
    rd: "array_read (tls13_kem_groups cp) 0 = Inr (Some d)"
    by (auto simp: s2n_get_predicted_negotiated_kem_group_def
          split: option.splits sum.splits)
  then have "0 < length (tls13_kem_groups cp)" and "tls13_kem_groups cp ! 0 = Some d"
    by (auto simp: array_read_def split: if_splits)
  then have d_in: "Some d \<in> set (tls13_kem_groups cp)"
    by (metis nth_mem)
  have within: "\<And>p x. x \<in> groups_within p \<Longrightarrow> Some x \<in> set (tls13_kem_groups p)"
    by (auto simp: groups_within_def dest: in_set_takeD)
  from assms cp sp rd consider
      (first) "kem_default_loop av d sp 0 = Inr (Return (Some g))"
    | (second) "kem_server_loop av cp sp 0 = Inr (Return (Some g))"
    by (auto simp: s2n_get_predicted_negotiated_kem_group_def
          split: sum.splits flow.splits)
  then show ?thesis
  proof cases
    case first
    from kem_default_loop_returns [OF first] d_in cp sp within show ?thesis
      by blast
  next
    case second
    from kem_server_loop_returns [OF second] cp sp within show ?thesis
      by blast
  qed
qed

theorem predicted_kem_group_available_and_mutual_witness:
  "s2n_get_predicted_negotiated_kem_group
       (\<lambda>g. g \<noteq> s2n_secp521r1_kyber_1024_r3 sample_registry)
       (Some (kem_prefs_of (kyber_test_groups sample_registry) 0))
       (Some (kem_prefs_of (kyber1024_test_kem_groups sample_registry) 5))
     = Inr (Some (s2n_secp256r1_kyber_512_r3 sample_registry))
   \<and> s2n_secp256r1_kyber_512_r3 sample_registry \<noteq> s2n_secp521r1_kyber_1024_r3 sample_registry
   \<and> Some (s2n_secp256r1_kyber_512_r3 sample_registry)
       \<in> set (tls13_kem_groups (kem_prefs_of (kyber_test_groups sample_registry) 0))"
proof -
  have run: "s2n_get_predicted_negotiated_kem_group
       (\<lambda>g. g \<noteq> s2n_secp521r1_kyber_1024_r3 sample_registry)
       (Some (kem_prefs_of (kyber_test_groups sample_registry) 0))
       (Some (kem_prefs_of (kyber1024_test_kem_groups sample_registry) 5))
     = Inr (Some (s2n_secp256r1_kyber_512_r3 sample_registry))"
    by (simp add: predicted_kem_group_two_tier kyber1024_test_kem_groups_def
          kyber_test_groups_def sample_registry_def two_tier_select_def fast_path_def
          second_tier_def)
  from predicted_kem_group_available_and_mutual [OF run] run show ?thesis
    by auto
qed

lemma available_without_x25519_passes_test:
  "kem_group_availability_assertions libcrypto_without_evp_apis available_without_x25519
     sample_registry"
  by (simp add: kem_group_availability_assertions_def libcrypto_without_evp_apis_def
        available_without_x25519_def sample_registry_def)

text \<open>
  C2.  The lists \<open>C\<close> of the client and \<open>S\<close> of the server are filtered by
  availability.  The filtered list of the client is not empty, its first group is the first
  group the client lists (so the first listed group is available), the peer sent a key share
  for it, and the filtered list of the server holds a group with the same \<open>iana_id\<close>: then
  the predictor returns that group, and no HelloRetryRequest is required for it.
\<close>

theorem fast_path_selects_client_first:
  assumes "filter av C \<noteq> []"
    and "hd (filter av C) = hd C"
    and "\<exists>s \<in> set (filter av S). iana_id s = iana_id (hd (filter av C))"
    and "shares (iana_id (hd (filter av C))) \<noteq> None"
  shows "s2n_get_predicted_negotiated_kem_group av
           (Some (kem_prefs_of C r)) (Some (kem_prefs_of S r')) = Inr (Some (hd (filter av C)))
         \<and> \<not> requires_hrr shares (iana_id (hd (filter av C)))"
proof -
  from assms(1) have nonempty: "C \<noteq> []"
    by auto
  then obtain d C' where C: "C = d # C'"
    by (cases C) auto
  from assms(1) have "hd (filter av C) \<in> set (filter av C)"
    by (rule hd_in_set)
  then have "av (hd (filter av C))"
    by simp
  with assms(2) C have first: "av d" and hd: "hd (filter av C) = d"
    by simp_all
  from assms(3) hd first have "fast_path av iana_id d S"
    by (auto simp: fast_path_def list_ex_iff)
  with C have "two_tier_select av iana_id C S = Some d"
    by (simp add: two_tier_select_def)
  with nonempty assms(4) hd show ?thesis
    by (simp add: predicted_kem_group_two_tier requires_hrr_def)
qed

theorem fast_path_selects_client_first_witness:
  "filter available_without_x25519 (kyber1024_test_kem_groups sample_registry)
     = kyber1024_test_kem_groups sample_registry
   \<and> s2n_get_predicted_negotiated_kem_group available_without_x25519
       (Some (kem_prefs_of (kyber1024_test_kem_groups sample_registry) 5))
       (Some (kem_prefs_of (kyber_test_groups sample_registry) 0))
     = Inr (Some (s2n_secp521r1_kyber_1024_r3 sample_registry))
   \<and> \<not> requires_hrr [0x2F3D \<mapsto> [1, 2, 3]] 0x2F3D"
proof -
  let ?av = available_without_x25519
  have same: "filter ?av (kyber1024_test_kem_groups sample_registry)
      = kyber1024_test_kem_groups sample_registry"
    by code_simp
  have first: "hd (kyber1024_test_kem_groups sample_registry)
      = s2n_secp521r1_kyber_1024_r3 sample_registry"
    by (simp add: kyber1024_test_kem_groups_def)
  have "s2n_get_predicted_negotiated_kem_group ?av
       (Some (kem_prefs_of (kyber1024_test_kem_groups sample_registry) 5))
       (Some (kem_prefs_of (kyber_test_groups sample_registry) 0))
     = Inr (Some (hd (filter ?av (kyber1024_test_kem_groups sample_registry))))
   \<and> \<not> requires_hrr [0x2F3D \<mapsto> [1, 2, 3]]
         (iana_id (hd (filter ?av (kyber1024_test_kem_groups sample_registry))))"
  proof (rule fast_path_selects_client_first)
    show "filter ?av (kyber1024_test_kem_groups sample_registry) \<noteq> []"
      unfolding same by (simp add: kyber1024_test_kem_groups_def)
    show "hd (filter ?av (kyber1024_test_kem_groups sample_registry))
        = hd (kyber1024_test_kem_groups sample_registry)"
      unfolding same by simp
    show "\<exists>s \<in> set (filter ?av (kyber_test_groups sample_registry)).
        iana_id s = iana_id (hd (filter ?av (kyber1024_test_kem_groups sample_registry)))"
      unfolding same first
      by (simp add: kyber_test_groups_def sample_registry_def available_without_x25519_def)
    show "[0x2F3D \<mapsto> [1, 2, 3]]
        (iana_id (hd (filter ?av (kyber1024_test_kem_groups sample_registry)))) \<noteq> None"
      unfolding same first by (simp add: sample_registry_def)
  qed
  then show ?thesis
    unfolding same first by (simp add: sample_registry_def)
qed

text \<open>
  C2, as stated for the filtered lists alone.  The predictor asks availability of each
  candidate and does not filter the lists first, and the fast path is tried on the first
  listed group only.  When the groups over \<open>x25519\<close> are unavailable, the first group of
  \<^verbatim>\<open>kyber_test_groups\<close> is unavailable; the first available one,
  \<open>secp256r1_kyber-512-r3\<close>, is available in the server's list
  \<^verbatim>\<open>kyber1024_test_kem_groups\<close> and the client sent a key share for it.  The predictor
  does not return it: the second tier runs, and the server's first choice
  \<open>secp521r1_kyber-1024-r3\<close> is returned.
\<close>

theorem fast_path_unavailable_first_counterexample:
  "filter available_without_x25519 (kyber_test_groups sample_registry) \<noteq> []
   \<and> hd (filter available_without_x25519 (kyber_test_groups sample_registry))
       = s2n_secp256r1_kyber_512_r3 sample_registry
   \<and> s2n_secp256r1_kyber_512_r3 sample_registry
       \<in> set (filter available_without_x25519 (kyber1024_test_kem_groups sample_registry))
   \<and> \<not> requires_hrr sample_key_shares (iana_id (s2n_secp256r1_kyber_512_r3 sample_registry))
   \<and> s2n_get_predicted_negotiated_kem_group available_without_x25519
         (Some (kyber_test_prefs_draft0 sample_registry))
         (Some (kem_prefs_of (kyber1024_test_kem_groups sample_registry) 5))
       = Inr (Some (s2n_secp521r1_kyber_1024_r3 sample_registry))
   \<and> s2n_secp521r1_kyber_1024_r3 sample_registry \<noteq> s2n_secp256r1_kyber_512_r3 sample_registry"
  by (simp add: kyber_test_prefs_draft0_def predicted_kem_group_two_tier
        kyber1024_test_kem_groups_def kyber_test_groups_def sample_registry_def
        two_tier_select_def fast_path_def second_tier_def available_without_x25519_def
        requires_hrr_def sample_key_shares_def)

text \<open>
  C3.  When the fast path does not apply to a client list \<open>first # later\<close>, the predictor
  returns what the scan of the server's list \<open>S\<close> in its order gives: for the first server
  group that is available and whose \<open>iana_id\<close> is that of an available client group at
  index 1 or later, the first such client group; nothing when there is no such server
  group.  The returned group has the \<open>iana_id\<close> of that server group, and when the peer
  sent no key share for it a HelloRetryRequest is required.
\<close>

theorem second_tier_scans_server_order:
  assumes "\<not> fast_path av iana_id first S"
  shows "s2n_get_predicted_negotiated_kem_group av
           (Some (kem_prefs_of (first # later) r)) (Some (kem_prefs_of S r'))
         = Inr (case find (\<lambda>s. av s \<and> list_ex (\<lambda>c. av c \<and> iana_id c = iana_id s) later) S of
                  None \<Rightarrow> None
                | Some s \<Rightarrow> find (\<lambda>c. av c \<and> iana_id c = iana_id s) later)
         \<and> (\<forall>g. s2n_get_predicted_negotiated_kem_group av
                  (Some (kem_prefs_of (first # later) r)) (Some (kem_prefs_of S r'))
                = Inr (Some g) \<longrightarrow>
                (\<exists>s. find (\<lambda>s. av s \<and> list_ex (\<lambda>c. av c \<and> iana_id c = iana_id s) later) S
                       = Some s
                     \<and> iana_id g = iana_id s \<and> av g \<and> g \<in> set later)
                \<and> (shares (iana_id g) = None
                     \<longrightarrow> requires_hrr shares (iana_id g)))"
proof -
  let ?scan = "find (\<lambda>s. av s \<and> list_ex (\<lambda>c. av c \<and> iana_id c = iana_id s) later) S"
  have run: "s2n_get_predicted_negotiated_kem_group av
           (Some (kem_prefs_of (first # later) r)) (Some (kem_prefs_of S r'))
         = Inr (case ?scan of
                  None \<Rightarrow> None
                | Some s \<Rightarrow> find (\<lambda>c. av c \<and> iana_id c = iana_id s) later)"
    using assms
    by (simp add: predicted_kem_group_two_tier two_tier_select_def second_tier_def)
  have "\<exists>s. ?scan = Some s \<and> iana_id g = iana_id s \<and> av g \<and> g \<in> set later"
    if "(case ?scan of None \<Rightarrow> None
         | Some s \<Rightarrow> find (\<lambda>c. av c \<and> iana_id c = iana_id s) later) = Some g" for g
  proof -
    from that obtain s where s: "?scan = Some s"
      and g: "find (\<lambda>c. av c \<and> iana_id c = iana_id s) later = Some g"
      by (auto split: option.splits)
    from g have "av g \<and> iana_id g = iana_id s \<and> g \<in> set later"
      by (auto simp: find_Some_iff)
    with s show ?thesis by simp
  qed
  with run show ?thesis
    by (simp add: requires_hrr_def)
qed

theorem second_tier_scans_server_order_witness:
  "\<not> fast_path (\<lambda>_. True) iana_id (s2n_x25519_kyber_512_r3 sample_registry)
       (kyber1024_test_kem_groups sample_registry)
   \<and> s2n_get_predicted_negotiated_kem_group (\<lambda>_. True)
       (Some (kem_prefs_of (kyber_test_groups sample_registry) 0))
       (Some (kem_prefs_of (kyber1024_test_kem_groups sample_registry) 5))
     = Inr (Some (s2n_secp521r1_kyber_1024_r3 sample_registry))
   \<and> requires_hrr [0x2F39 \<mapsto> [1, 2, 3]] 0x2F3D"
proof -
  have miss: "\<not> fast_path (\<lambda>_. True) iana_id (s2n_x25519_kyber_512_r3 sample_registry)
       (kyber1024_test_kem_groups sample_registry)"
    by (simp add: fast_path_def kyber1024_test_kem_groups_def sample_registry_def)
  note inst = second_tier_scans_server_order
         [OF miss, of "tl (kyber_test_groups sample_registry)" 0 5 "[0x2F39 \<mapsto> [1, 2, 3]]"]
  have first: "s2n_x25519_kyber_512_r3 sample_registry # tl (kyber_test_groups sample_registry)
      = kyber_test_groups sample_registry"
    by (simp add: kyber_test_groups_def)
  from inst have run: "s2n_get_predicted_negotiated_kem_group (\<lambda>_. True)
       (Some (kem_prefs_of (kyber_test_groups sample_registry) 0))
       (Some (kem_prefs_of (kyber1024_test_kem_groups sample_registry) 5))
     = Inr (Some (s2n_secp521r1_kyber_1024_r3 sample_registry))"
    unfolding first
    by (simp add: kyber1024_test_kem_groups_def kyber_test_groups_def sample_registry_def)
  from inst [unfolded first, THEN conjunct2, rule_format, OF run, THEN conjunct2]
  have "requires_hrr [0x2F39 \<mapsto> [1, 2, 3]]
          (iana_id (s2n_secp521r1_kyber_1024_r3 sample_registry))"
    by (simp add: sample_registry_def)
  with miss run show ?thesis
    by (simp add: sample_registry_def)
qed

text \<open>
  C6.  When no available client group and available server group share an \<open>iana_id\<close>
  (a client without KEM groups included), selection is decided by the classical tier, which
  computes the same two-tier rule over the curve lists, every curve counted as available:
  its curve is selected when there is one.  When the curve lists share no \<open>iana_id\<close>
  either, selection ends in the no-mutual-group error.  The prediction functions, called on
  a client list that is not empty, return no group and the curve of the two-tier rule.
\<close>

theorem no_kem_intersection_falls_to_curves:
  assumes "\<not> (\<exists>c \<in> set C. \<exists>s \<in> set S. av c \<and> av s \<and> iana_id c = iana_id s)"
  shows "negotiate_key_exchange av
             (policy_of (kem_prefs_of C r) (ecc_prefs_of CC))
             (policy_of (kem_prefs_of S r') (ecc_prefs_of SC))
           = Inr (case two_tier_select (\<lambda>_. True) ecc_iana_id CC SC of
                    Some c \<Rightarrow> Inr (Classical c)
                  | None \<Rightarrow> Inl NoMutualGroup)
         \<and> (C \<noteq> [] \<longrightarrow>
              s2n_get_predicted_negotiated_kem_group av
                (Some (kem_prefs_of C r)) (Some (kem_prefs_of S r')) = Inr None)
         \<and> (CC \<noteq> [] \<longrightarrow>
              s2n_get_predicted_negotiated_ecdhe_curve
                (Some (policy_of (kem_prefs_of C r) (ecc_prefs_of CC)))
                (Some (policy_of (kem_prefs_of S r') (ecc_prefs_of SC)))
              = Inr (two_tier_select (\<lambda>_. True) ecc_iana_id CC SC))
         \<and> (\<not> (\<exists>c \<in> set CC. \<exists>s \<in> set SC. ecc_iana_id c = ecc_iana_id s) \<longrightarrow>
              negotiate_key_exchange av
                  (policy_of (kem_prefs_of C r) (ecc_prefs_of CC))
                  (policy_of (kem_prefs_of S r') (ecc_prefs_of SC))
                = Inr (Inl NoMutualGroup)
              \<and> (CC \<noteq> [] \<longrightarrow>
                   s2n_get_predicted_negotiated_ecdhe_curve
                     (Some (policy_of (kem_prefs_of C r) (ecc_prefs_of CC)))
                     (Some (policy_of (kem_prefs_of S r') (ecc_prefs_of SC))) = Inr None))"
proof -
  let ?cp = "policy_of (kem_prefs_of C r) (ecc_prefs_of CC)"
  let ?sp = "policy_of (kem_prefs_of S r') (ecc_prefs_of SC)"
  from assms have no_group: "two_tier_select av iana_id C S = None"
    by (rule two_tier_select_none)
  have kem: "s2n_get_predicted_negotiated_kem_group av
           (Some (kem_prefs_of C r)) (Some (kem_prefs_of S r')) = Inr None" if "C \<noteq> []"
    using that no_group by (simp add: predicted_kem_group_two_tier)
  have ecc: "s2n_get_predicted_negotiated_ecdhe_curve (Some ?cp) (Some ?sp)
           = Inr (two_tier_select (\<lambda>_. True) ecc_iana_id CC SC)" if "CC \<noteq> []"
    using that by (rule predicted_ecdhe_two_tier)
  have neg: "negotiate_key_exchange av ?cp ?sp
           = Inr (case two_tier_select (\<lambda>_. True) ecc_iana_id CC SC of
                    Some c \<Rightarrow> Inr (Classical c)
                  | None \<Rightarrow> Inl NoMutualGroup)"
    by (simp add: negotiate_two_tier no_group)
  have none: "two_tier_select (\<lambda>_. True) ecc_iana_id CC SC = None"
    if "\<not> (\<exists>c \<in> set CC. \<exists>s \<in> set SC. ecc_iana_id c = ecc_iana_id s)"
    using that by (intro two_tier_select_none) simp
  from kem ecc neg none show ?thesis
    by simp
qed

theorem no_kem_intersection_falls_to_curves_witness:
  "negotiate_key_exchange (\<lambda>_. True)
       (policy_of (kem_prefs_of [] 0)
          (ecc_prefs_of [sample_x25519, sample_secp384r1, sample_secp256r1]))
       (policy_of (kem_prefs_of (kyber_test_groups sample_registry) 0)
          (ecc_prefs_of [sample_secp256r1, sample_secp384r1]))
     = Inr (Inr (Classical sample_secp256r1))
   \<and> s2n_get_predicted_negotiated_kem_group (\<lambda>_. True)
       (Some (kem_prefs_of (mlkem768_test_groups sample_registry) 5))
       (Some (kem_prefs_of (kyber_test_groups sample_registry) 0)) = Inr None
   \<and> negotiate_key_exchange (\<lambda>_. True)
       (policy_of (kem_prefs_of (mlkem768_test_groups sample_registry) 5)
          (ecc_prefs_of [sample_x25519]))
       (policy_of (kem_prefs_of (kyber_test_groups sample_registry) 0)
          (ecc_prefs_of [sample_secp256r1, sample_secp384r1]))
     = Inr (Inl NoMutualGroup)
   \<and> negotiate_key_exchange (\<lambda>_. True)
       (policy_of (kem_prefs_of (mlkem768_test_groups sample_registry) 5) (ecc_prefs_of []))
       (policy_of (kem_prefs_of (kyber_test_groups sample_registry) 0)
          (ecc_prefs_of [sample_secp256r1, sample_secp384r1]))
     = Inr (Inl NoMutualGroup)"
proof -
  have no_groups: "\<not> (\<exists>c \<in> set []. \<exists>s \<in> set (kyber_test_groups sample_registry).
        (\<lambda>_. True) c \<and> (\<lambda>_. True) s \<and> iana_id c = iana_id s)"
    by simp
  have disjoint: "\<not> (\<exists>c \<in> set (mlkem768_test_groups sample_registry).
      \<exists>s \<in> set (kyber_test_groups sample_registry).
        (\<lambda>_. True) c \<and> (\<lambda>_. True) s \<and> iana_id c = iana_id s)"
    by (simp add: mlkem768_test_groups_def kyber_test_groups_def sample_registry_def)
  have nonempty: "mlkem768_test_groups sample_registry \<noteq> []"
    by (simp add: mlkem768_test_groups_def)
  have curves_disjoint: "\<not> (\<exists>c \<in> set [sample_x25519].
      \<exists>s \<in> set [sample_secp256r1, sample_secp384r1]. ecc_iana_id c = ecc_iana_id s)"
    by (simp add: sample_x25519_def sample_secp256r1_def sample_secp384r1_def)
  have no_curves: "\<not> (\<exists>c \<in> set [].
      \<exists>s \<in> set [sample_secp256r1, sample_secp384r1]. ecc_iana_id c = ecc_iana_id s)"
    by simp
  from no_kem_intersection_falls_to_curves
         [OF no_groups, of 0 "[sample_x25519, sample_secp384r1, sample_secp256r1]"
            0 "[sample_secp256r1, sample_secp384r1]"]
  have a: "negotiate_key_exchange (\<lambda>_. True)
       (policy_of (kem_prefs_of [] 0)
          (ecc_prefs_of [sample_x25519, sample_secp384r1, sample_secp256r1]))
       (policy_of (kem_prefs_of (kyber_test_groups sample_registry) 0)
          (ecc_prefs_of [sample_secp256r1, sample_secp384r1]))
     = Inr (Inr (Classical sample_secp256r1))"
    by (simp add: two_tier_select_def fast_path_def second_tier_def
          sample_x25519_def sample_secp256r1_def sample_secp384r1_def)
  note inst = no_kem_intersection_falls_to_curves
         [OF disjoint, of 5 "[sample_x25519]" 0 "[sample_secp256r1, sample_secp384r1]"]
  from inst nonempty have b: "s2n_get_predicted_negotiated_kem_group (\<lambda>_. True)
       (Some (kem_prefs_of (mlkem768_test_groups sample_registry) 5))
       (Some (kem_prefs_of (kyber_test_groups sample_registry) 0)) = Inr None"
    by simp
  from inst curves_disjoint
  have c: "negotiate_key_exchange (\<lambda>_. True)
       (policy_of (kem_prefs_of (mlkem768_test_groups sample_registry) 5)
          (ecc_prefs_of [sample_x25519]))
       (policy_of (kem_prefs_of (kyber_test_groups sample_registry) 0)
          (ecc_prefs_of [sample_secp256r1, sample_secp384r1]))
     = Inr (Inl NoMutualGroup)"
    by blast
  from no_kem_intersection_falls_to_curves
         [OF disjoint, of 5 "[]" 0 "[sample_secp256r1, sample_secp384r1]"] no_curves
  have d: "negotiate_key_exchange (\<lambda>_. True)
       (policy_of (kem_prefs_of (mlkem768_test_groups sample_registry) 5) (ecc_prefs_of []))
       (policy_of (kem_prefs_of (kyber_test_groups sample_registry) 0)
          (ecc_prefs_of [sample_secp256r1, sample_secp384r1]))
     = Inr (Inl NoMutualGroup)"
    by blast
  from a b c d show ?thesis by simp
qed


section \<open>Claims about availability and about the serialized sizes\<close>

lemma spec_availability_passes_test:
  assumes "registry_pairs reg"
  shows "kem_group_availability_assertions lc (s2n_kem_group_is_available lc) reg"
  using assms
  by (simp add: kem_group_availability_assertions_def s2n_kem_group_is_available_def
        registry_pairs_def pairs_def is_mlkem_def)

text \<open>
  C8.  A KEM group is available exactly when the provider has the generic KEM interface,
  and has \<open>x25519\<close> if the group's curve is \<open>x25519\<close>, and has ML-KEM if the group's KEM is
  one of the ML-KEM variants.  For a table of the nine groups that pairs curves and KEMs as
  the identifiers say, this predicate meets every availability assertion of the KEM
  preferences test, whatever the provider.
\<close>

theorem kem_group_available_iff:
  assumes "registry_pairs reg"
  shows "(s2n_kem_group_is_available lc g \<longleftrightarrow>
            s2n_libcrypto_supports_evp_kem lc
            \<and> (curve g = X25519 \<longrightarrow> s2n_is_evp_apis_supported lc)
            \<and> (kem g = Mlkem_768 \<or> kem g = Mlkem_1024 \<longrightarrow> s2n_libcrypto_supports_mlkem lc))
         \<and> kem_group_availability_assertions lc (s2n_kem_group_is_available lc) reg"
  using spec_availability_passes_test [OF assms]
  by (simp add: s2n_kem_group_is_available_def is_mlkem_def)

theorem kem_group_available_iff_witness:
  "registry_pairs sample_registry
   \<and> s2n_kem_group_is_available awslc_with_mlkem (s2n_x25519_mlkem_768 sample_registry)
   \<and> \<not> s2n_kem_group_is_available awslc_without_mlkem (s2n_x25519_mlkem_768 sample_registry)
   \<and> s2n_kem_group_is_available awslc_without_mlkem (s2n_x25519_kyber_512_r3 sample_registry)
   \<and> kem_group_availability_assertions awslc_without_mlkem
       (s2n_kem_group_is_available awslc_without_mlkem) sample_registry"
proof -
  have pairs: "registry_pairs sample_registry"
    by (simp add: registry_pairs_def pairs_def sample_registry_def)
  from kem_group_available_iff [OF pairs, of awslc_with_mlkem
         "s2n_x25519_mlkem_768 sample_registry"]
  have a: "s2n_kem_group_is_available awslc_with_mlkem (s2n_x25519_mlkem_768 sample_registry)"
    by (simp add: awslc_with_mlkem_def sample_registry_def)
  from kem_group_available_iff [OF pairs, of awslc_without_mlkem
         "s2n_x25519_mlkem_768 sample_registry"]
  have b: "\<not> s2n_kem_group_is_available awslc_without_mlkem
               (s2n_x25519_mlkem_768 sample_registry)"
    and d: "kem_group_availability_assertions awslc_without_mlkem
       (s2n_kem_group_is_available awslc_without_mlkem) sample_registry"
    by (simp_all add: awslc_without_mlkem_def sample_registry_def)
  from kem_group_available_iff [OF pairs, of awslc_without_mlkem
         "s2n_x25519_kyber_512_r3 sample_registry"]
  have c: "s2n_kem_group_is_available awslc_without_mlkem
             (s2n_x25519_kyber_512_r3 sample_registry)"
    by (simp add: awslc_without_mlkem_def sample_registry_def)
  from pairs a b c d show ?thesis by simp
qed

text \<open>
  C9.  \<^verbatim>\<open>S2N_SERIALIZED_CONN_FIXED_SIZE\<close> is 8 bytes, the protocol version, the cipher suite
  identifier, two sequence numbers and 2 more bytes; \<^verbatim>\<open>S2N_SERIALIZED_CONN_TLS12_SIZE\<close>
  exceeds it by exactly the master secret and two random values, which is the master secret
  and 64 bytes when a random value has 32 bytes.
\<close>

theorem serialized_conn_sizes:
  assumes "S2N_TLS_RANDOM_DATA_LEN p = 32"
  shows "S2N_SERIALIZED_CONN_FIXED_SIZE p =
           8 + S2N_TLS_PROTOCOL_VERSION_LEN p + S2N_TLS_CIPHER_SUITE_LEN p
             + 2 * S2N_TLS_SEQUENCE_NUM_LEN p + 2
         \<and> S2N_SERIALIZED_CONN_TLS12_SIZE p =
             S2N_SERIALIZED_CONN_FIXED_SIZE p + S2N_TLS_SECRET_LEN p + 2 * 32
         \<and> S2N_SERIALIZED_CONN_TLS12_SIZE p - S2N_SERIALIZED_CONN_FIXED_SIZE p =
             S2N_TLS_SECRET_LEN p + 32 + 32"
  using assms
  by (simp add: S2N_SERIALIZED_CONN_FIXED_SIZE_def S2N_SERIALIZED_CONN_TLS12_SIZE_def)

theorem serialized_conn_sizes_witness:
  "S2N_TLS_RANDOM_DATA_LEN sample_tls_parameters = 32
   \<and> S2N_SERIALIZED_CONN_FIXED_SIZE sample_tls_parameters = 30
   \<and> S2N_SERIALIZED_CONN_TLS12_SIZE sample_tls_parameters = 142"
proof -
  have len: "S2N_TLS_RANDOM_DATA_LEN sample_tls_parameters = 32"
    by (simp add: sample_tls_parameters_def)
  from serialized_conn_sizes [OF len] len show ?thesis
    by (simp add: sample_tls_parameters_def)
qed


section \<open>Properties of the handshake test driver\<close>

lemma ensure_bind: "(ensure b \<bind> f) = Some y \<longleftrightarrow> b \<and> f () = Some y"
  by (simp add: ensure_def)

lemma ensure_Some: "ensure b = Some u \<longleftrightarrow> b"
  by (simp add: ensure_def)

lemma ensure_same_name_Some: "ensure_same_name e s = Some u \<longleftrightarrow> e = s"
  by (auto simp: ensure_same_name_def ensure_bind ensure_Some)

lemma ensure_same_name_bind: "(ensure_same_name e s \<bind> f) = Some y \<longleftrightarrow> e = s \<and> f () = Some y"
  by (auto simp: ensure_same_name_def ensure_def split: if_splits)

lemma test_success:
  assumes "s2n_test_tls13_pq_handshake lib cpol spol ekg ec hrr lp = Some ()"
  obtains w n where "pq_handshake lib cpol spol ekg ec hrr lp = Some w"
    and "check_negotiated lib ekg ec w = Some ()"
    and "check_secrets lib w = Some n"
  using assms
  by (auto simp: s2n_test_tls13_pq_handshake_def bind_eq_Some_conv)

lemma pq_handshake_success:
  assumes "pq_handshake lib cpol spol ekg ec hrr lp = Some w"
  obtains w1 where "(ekg = None) \<noteq> (ec = None)"
    and "client_hello_flight lib cpol spol = Some w1"
    and "check_server_choice lib cpol ekg ec lp w1 = Some ()"
    and "server_hello_flight lib hrr w1 = Some w"
  using assms
  by (auto simp: pq_handshake_def ensure_bind ensure_Some bind_eq_Some_conv)

section \<open>Claims about the outcome of selection\<close>

text \<open>
  C4, with the draft revision the test vectors give.  Whenever a hybrid group is negotiated,
  the length prefix is used exactly when the draft revision of the client's KEM preferences
  is 0; the client and the server hold the same value, whatever the policy of the server.
  The values pass the driver's assertions on the length prefix, and the rule gives what
  each vector that the test declares expects of its client policy.
\<close>

theorem len_prefixed_iff_client_draft0:
  assumes "negotiate_key_exchange av cpol spol = Inr (Inr (Hybrid g lp))"
  shows "(\<exists>k. kem_preferences cpol = Some k
            \<and> (lp \<longleftrightarrow> tls13_pq_hybrid_draft_revision k = 0))
         \<and> peer_len_prefixed S2N_CLIENT cpol spol = lp
         \<and> peer_len_prefixed S2N_SERVER spol cpol = lp
         \<and> peer_len_prefixed S2N_SERVER other_spol cpol = lp
         \<and> ensure_len_prefix lp (peer_len_prefixed S2N_CLIENT cpol spol)
              (must_use_hybrid_kem_length_prefix (kem_preferences cpol))
              (peer_len_prefixed S2N_SERVER spol cpol) = Some ()
         \<and> len_prefix_expected (draft0_client_vector reg ecc)
             = must_use_hybrid_kem_length_prefix
                 (kem_preferences (client_policy (draft0_client_vector reg ecc)))
         \<and> len_prefix_expected (draft5_client_vector reg ecc)
             = must_use_hybrid_kem_length_prefix
                 (kem_preferences (client_policy (draft5_client_vector reg ecc)))
         \<and> len_prefix_expected (self_talk_vector ecc g')
             = must_use_hybrid_kem_length_prefix
                 (kem_preferences (client_policy (self_talk_vector ecc g')))"
proof -
  from negotiated_hybrid_prefix [OF assms] obtain k where
    lp: "lp = peer_len_prefixed S2N_SERVER spol cpol" and k: "kem_preferences cpol = Some k"
    by blast
  from lp k have rule: "lp \<longleftrightarrow> tls13_pq_hybrid_draft_revision k = 0"
    by (simp add: peer_len_prefixed_def must_use_hybrid_kem_length_prefix_def)
  have peers: "peer_len_prefixed S2N_CLIENT cpol spol = lp"
    "peer_len_prefixed S2N_SERVER other_spol cpol = lp"
    "must_use_hybrid_kem_length_prefix (kem_preferences cpol) = lp"
    using lp by (simp_all add: peer_len_prefixed_def)
  have vectors: "len_prefix_expected (draft0_client_vector reg ecc)
             = must_use_hybrid_kem_length_prefix
                 (kem_preferences (client_policy (draft0_client_vector reg ecc)))"
    "len_prefix_expected (draft5_client_vector reg ecc)
             = must_use_hybrid_kem_length_prefix
                 (kem_preferences (client_policy (draft5_client_vector reg ecc)))"
    "len_prefix_expected (self_talk_vector ecc g')
             = must_use_hybrid_kem_length_prefix
                 (kem_preferences (client_policy (self_talk_vector ecc g')))"
    by (simp_all add: draft0_client_vector_def draft5_client_vector_def self_talk_vector_def
          kyber_test_policy_draft0_def kyber_test_policy_draft5_def singleton_test_policy_def
          kyber_test_prefs_draft0_def kyber_test_prefs_draft5_def singleton_test_pref_def
          policy_of_def kem_prefs_of_def must_use_hybrid_kem_length_prefix_def)
  from k rule peers lp [symmetric] vectors show ?thesis
    by (simp add: ensure_len_prefix_def ensure_def)
qed

theorem len_prefixed_iff_client_draft0_witness:
  "negotiate_key_exchange (s2n_kem_group_is_available awslc_without_mlkem)
       (kyber_test_policy_draft0 sample_registry sample_ecc_tables)
       (kyber_test_policy_draft5 sample_registry sample_ecc_tables)
     = Inr (Inr (Hybrid (s2n_x25519_kyber_512_r3 sample_registry) True))
   \<and> kem_preferences (kyber_test_policy_draft0 sample_registry sample_ecc_tables)
       = Some (kyber_test_prefs_draft0 sample_registry)
   \<and> tls13_pq_hybrid_draft_revision (kyber_test_prefs_draft0 sample_registry) = 0
   \<and> peer_len_prefixed S2N_CLIENT
       (kyber_test_policy_draft0 sample_registry sample_ecc_tables)
       (kyber_test_policy_draft5 sample_registry sample_ecc_tables)
   \<and> peer_len_prefixed S2N_SERVER
       (kyber_test_policy_draft5 sample_registry sample_ecc_tables)
       (kyber_test_policy_draft0 sample_registry sample_ecc_tables)"
proof -
  have run: "negotiate_key_exchange (s2n_kem_group_is_available awslc_without_mlkem)
       (kyber_test_policy_draft0 sample_registry sample_ecc_tables)
       (kyber_test_policy_draft5 sample_registry sample_ecc_tables)
     = Inr (Inr (Hybrid (s2n_x25519_kyber_512_r3 sample_registry) True))"
    by (simp add: kyber_test_policy_draft0_def kyber_test_policy_draft5_def
          kyber_test_prefs_draft0_def kyber_test_prefs_draft5_def sample_ecc_tables_def
          negotiate_two_tier two_tier_select_def fast_path_def kyber_test_groups_def
          sample_registry_def s2n_kem_group_is_available_def awslc_without_mlkem_def
          is_mlkem_def)
  have prefs: "kem_preferences (kyber_test_policy_draft0 sample_registry sample_ecc_tables)
       = Some (kyber_test_prefs_draft0 sample_registry)"
    by (simp add: kyber_test_policy_draft0_def policy_of_def)
  have revision: "tls13_pq_hybrid_draft_revision (kyber_test_prefs_draft0 sample_registry) = 0"
    by (simp add: kyber_test_prefs_draft0_def kem_prefs_of_def)
  from len_prefixed_iff_client_draft0 [OF run] run prefs revision show ?thesis
    by simp
qed

text \<open>
  C4, as stated with draft revision 5.  In the vector of the test whose client has
  \<^verbatim>\<open>kyber_test_policy_draft5\<close>, a hybrid group is negotiated and the draft revision of
  the client is 5; the vector expects no length prefix, and so is the outcome.  With the
  three values as the statement has them for revision 5, the driver's assertions on the
  length prefix fail on this vector; with those for revision 0 they hold.
\<close>

theorem len_prefixed_iff_draft5_counterexample:
  "negotiate_key_exchange (s2n_kem_group_is_available awslc_without_mlkem)
       (client_policy (draft5_client_vector sample_registry sample_ecc_tables))
       (server_policy (draft5_client_vector sample_registry sample_ecc_tables))
     = Inr (Inr (Hybrid (s2n_x25519_kyber_512_r3 sample_registry) False))
   \<and> kem_preferences (client_policy (draft5_client_vector sample_registry sample_ecc_tables))
       = Some (kyber_test_prefs_draft5 sample_registry)
   \<and> tls13_pq_hybrid_draft_revision (kyber_test_prefs_draft5 sample_registry) = 5
   \<and> expected_kem_group (draft5_client_vector sample_registry sample_ecc_tables)
       = Some (s2n_x25519_kyber_512_r3 sample_registry)
   \<and> len_prefix_expected (draft5_client_vector sample_registry sample_ecc_tables) = False
   \<and> ensure_len_prefix
         (len_prefix_expected (draft5_client_vector sample_registry sample_ecc_tables))
         (draft5_rule 5) (draft5_rule 5) (draft5_rule 5) = None
   \<and> ensure_len_prefix
         (len_prefix_expected (draft5_client_vector sample_registry sample_ecc_tables))
         (draft0_rule 5) (draft0_rule 5) (draft0_rule 5) = Some ()"
proof -
  have run: "negotiate_key_exchange (s2n_kem_group_is_available awslc_without_mlkem)
       (client_policy (draft5_client_vector sample_registry sample_ecc_tables))
       (server_policy (draft5_client_vector sample_registry sample_ecc_tables))
     = Inr (Inr (Hybrid (s2n_x25519_kyber_512_r3 sample_registry) False))"
    by (simp add: draft5_client_vector_def kyber_test_policy_draft0_def
          kyber_test_policy_draft5_def kyber_test_prefs_draft0_def kyber_test_prefs_draft5_def
          sample_ecc_tables_def negotiate_two_tier two_tier_select_def fast_path_def
          kyber_test_groups_def sample_registry_def s2n_kem_group_is_available_def
          awslc_without_mlkem_def is_mlkem_def)
  have vector: "kem_preferences
         (client_policy (draft5_client_vector sample_registry sample_ecc_tables))
       = Some (kyber_test_prefs_draft5 sample_registry)"
    "tls13_pq_hybrid_draft_revision (kyber_test_prefs_draft5 sample_registry) = 5"
    "expected_kem_group (draft5_client_vector sample_registry sample_ecc_tables)
       = Some (s2n_x25519_kyber_512_r3 sample_registry)"
    "len_prefix_expected (draft5_client_vector sample_registry sample_ecc_tables) = False"
    by (simp_all add: draft5_client_vector_def kyber_test_policy_draft5_def
          kyber_test_prefs_draft5_def policy_of_def kem_prefs_of_def)
  from run vector show ?thesis
    by (simp add: ensure_len_prefix_def ensure_def draft5_rule_def draft0_rule_def)
qed


section \<open>Properties of the state machine and the retry\<close>

lemma or_and_self: "(a OR b) AND b = (b :: 32 word)"
  by (simp add: bit_eq_iff bit_and_iff bit_or_iff) 

lemma server_step_keeps_flag:
  assumes "flag_set h c"
  shows "flag_set h (fst (server_step sel h i c))"
proof -
  from assms have h: "h \<noteq> 0"
    by (auto simp: flag_set_def)
  have set: "(handshake_type_flags c OR h) AND h \<noteq> 0"
    using h by (simp add: or_and_self)
  from assms set show ?thesis
    by (cases "state c"; cases i)
       (auto simp: flag_set_def abort_def split: sum.splits option.splits)
qed

lemma server_step_hrr:
  assumes "snd (server_step sel h i c) = Some m" and "is_hrr m" and "h \<noteq> 0"
  shows "state c = SEND_HRR \<and> state (fst (server_step sel h i c)) = EXPECT_CH2
         \<and> flag_set h (fst (server_step sel h i c))"
  using assms
  by (cases "state c"; cases i)
     (auto simp: flag_set_def abort_def or_and_self split: sum.splits option.splits if_splits)

lemma server_step_progress:
  "progress (state c) \<le> progress (state (fst (server_step sel h i c)))"
  by (cases "state c"; cases i)
     (auto simp: abort_def split: sum.splits option.splits)

lemma client_step_keeps_flag:
  assumes "flag_set h c"
  shows "flag_set h (fst (client_step h i c))"
  using assms
  by (cases "state c"; cases i)
     (auto simp: flag_set_def split: server_output.splits)

lemma client_step_reads_hrr:
  assumes "h \<noteq> 0" and "state c = EXPECT_SERVER_HELLO"
  shows "flag_set h (fst (client_step h (Recv_From_Server (Hello_Retry_Request gid)) c))"
  using assms
  by (auto simp: flag_set_def or_and_self)

declare client_step.simps [simp del]

lemma client_run_keeps_flag:
  "flag_set h c \<Longrightarrow> flag_set h (fst (client_run h ins c))"
proof (induction ins arbitrary: c)
  case Nil
  then show ?case by simp
next
  case (Cons i ins)
  from Cons.prems have "flag_set h (fst (client_step h i c))"
    by (rule client_step_keeps_flag)
  from Cons.IH [OF this] show ?case
    by (simp add: case_prod_beta)
qed

declare server_step.simps [simp del]

lemma server_hello_flight_retry:
  assumes "server_hello_flight lib True w1 = Some w"
  shows "\<exists>w2 w3 w4 w5 w6.
           s2n_conn_set_handshake_type lib S2N_SERVER w1 = Some w2
           \<and> s2n_handshake_type_check_tls13_flag lib (server_conn w2) (HELLO_RETRY_REQUEST lib)
           \<and> s2n_handshake_write_io lib S2N_SERVER w2 = Some w3
           \<and> s2n_handshake_write_io lib S2N_SERVER w3 = Some w4
           \<and> s2n_handshake_read_io lib S2N_CLIENT w4 = Some w5
           \<and> s2n_conn_set_handshake_type lib S2N_CLIENT w5 = Some w6
           \<and> handshake_type (client_conn w6) AND HELLO_RETRY_REQUEST lib \<noteq> 0"
proof -
  from assms obtain w2 w3 w4 w' where
    a: "s2n_conn_set_handshake_type lib S2N_SERVER w1 = Some w2"
       "s2n_handshake_type_check_tls13_flag lib (server_conn w2) (HELLO_RETRY_REQUEST lib)"
       "s2n_handshake_write_io lib S2N_SERVER w2 = Some w3"
       "s2n_handshake_write_io lib S2N_SERVER w3 = Some w4"
    and r: "retry_flight lib w4 = Some w'"
    by (auto simp: server_hello_flight_def ensure_bind ensure_Some bind_eq_Some_conv)
  from r obtain w5 w6 where
    b: "s2n_handshake_read_io lib S2N_CLIENT w4 = Some w5"
       "s2n_conn_set_handshake_type lib S2N_CLIENT w5 = Some w6"
       "handshake_type (client_conn w6) AND HELLO_RETRY_REQUEST lib \<noteq> 0"
    unfolding retry_flight_def
    by (auto simp: ensure_bind ensure_Some bind_eq_Some_conv)
  from a b show ?thesis by blast
qed


lemma server_run_keeps_flag:
  "flag_set h c \<Longrightarrow> flag_set h (fst (server_run sel h ins c))"
proof (induction ins arbitrary: c)
  case Nil
  then show ?case by simp
next
  case (Cons i ins)
  from Cons.prems have "flag_set h (fst (server_step sel h i c))"
    by (rule server_step_keeps_flag)
  from Cons.IH [OF this] show ?case
    by (simp add: case_prod_beta)
qed

lemma server_run_append:
  "server_run sel h (xs @ ys) c =
     (case server_run sel h xs c of
        (c', outs) \<Rightarrow>
          (case server_run sel h ys c' of (c'', outs') \<Rightarrow> (c'', outs @ outs')))"
  by (induction xs arbitrary: c) (simp_all add: case_prod_beta)

lemma server_run_hrr_sets_flag:
  assumes "h \<noteq> 0"
  shows "m \<in> set (snd (server_run sel h ins c)) \<Longrightarrow> is_hrr m
         \<Longrightarrow> flag_set h (fst (server_run sel h ins c))"
proof (induction ins arbitrary: c)
  case Nil
  then show ?case by simp
next
  case (Cons i ins)
  let ?c' = "fst (server_step sel h i c)"
  from Cons.prems(1) consider
      (now) "snd (server_step sel h i c) = Some m"
    | (later) "m \<in> set (snd (server_run sel h ins ?c'))"
    by (auto simp: case_prod_beta split: option.splits)
  then show ?case
  proof cases
    case now
    from server_step_hrr [OF now Cons.prems(2) assms] have "flag_set h ?c'"
      by simp
    then have "flag_set h (fst (server_run sel h ins ?c'))"
      by (rule server_run_keeps_flag)
    then show ?thesis
      by (simp add: case_prod_beta)
  next
    case later
    from Cons.IH [OF later Cons.prems(2)] show ?thesis
      by (simp add: case_prod_beta)
  qed
qed

lemma server_run_hrr_count:
  assumes "h \<noteq> 0"
  shows "length (filter is_hrr (snd (server_run sel h ins c)))
           \<le> (if progress (state c) \<le> 2 then 1 else 0)"
proof (induction ins arbitrary: c)
  case Nil
  then show ?case by simp
next
  case (Cons i ins)
  let ?c' = "fst (server_step sel h i c)"
  let ?rest = "length (filter is_hrr (snd (server_run sel h ins ?c')))"
  have IH: "?rest \<le> (if progress (state ?c') \<le> 2 then 1 else 0)"
    by (rule Cons.IH)
  have mono: "progress (state c) \<le> progress (state ?c')"
    by (rule server_step_progress)
  show ?case
  proof (cases "\<exists>m. snd (server_step sel h i c) = Some m \<and> is_hrr m")
    case True
    then obtain m where m: "snd (server_step sel h i c) = Some m" "is_hrr m"
      by blast
    from server_step_hrr [OF m assms] have "state c = SEND_HRR" "state ?c' = EXPECT_CH2"
      by simp_all
    with IH m show ?thesis
      by (simp add: case_prod_beta)
  next
    case False
    then have "length (filter is_hrr (snd (server_run sel h (i # ins) c))) = ?rest"
      by (auto simp: case_prod_beta split: option.splits)
    with IH mono show ?thesis
      by (auto split: if_splits)
  qed
qed

text \<open>
  C7.  On the test driver: when \<^verbatim>\<open>s2n_test_tls13_pq_handshake\<close> returns success with
  \<open>hrr_expected\<close> set, whatever the library underneath, the server had the
  \<^verbatim>\<open>HELLO_RETRY_REQUEST\<close> flag after \<^verbatim>\<open>s2n_conn_set_handshake_type\<close>, and the client
  had it in \<^verbatim>\<open>handshake.handshake_type\<close> once it had read the retry request.  On the
  state machine of the server: in every run from the initial state, over any inputs, at
  most one HelloRetryRequest is emitted, and when one has been emitted the flag is set in
  the context and is still set after any further inputs.  On the client's side of it: a
  client that waits for the ServerHello and reads a retry request has the flag set
  afterwards, and a flag that is set stays set over any inputs.
\<close>

theorem hello_retry_request_flag_kept_and_single:
  assumes "s2n_test_tls13_pq_handshake lib cpol spol ekg ec True lp = Some ()"
    and "hrr_flag \<noteq> 0"
  shows "(\<exists>w1 w2 w3 w4 w5 w6.
            client_hello_flight lib cpol spol = Some w1
            \<and> s2n_conn_set_handshake_type lib S2N_SERVER w1 = Some w2
            \<and> s2n_handshake_type_check_tls13_flag lib (server_conn w2) (HELLO_RETRY_REQUEST lib)
            \<and> s2n_handshake_write_io lib S2N_SERVER w2 = Some w3
            \<and> s2n_handshake_write_io lib S2N_SERVER w3 = Some w4
            \<and> s2n_handshake_read_io lib S2N_CLIENT w4 = Some w5
            \<and> s2n_conn_set_handshake_type lib S2N_CLIENT w5 = Some w6
            \<and> handshake_type (client_conn w6) AND HELLO_RETRY_REQUEST lib \<noteq> 0)
         \<and> length (filter is_hrr
               (snd (server_run select hrr_flag inputs (initial_context flags)))) \<le> 1
         \<and> (\<forall>m \<in> set (snd (server_run select hrr_flag inputs (initial_context flags))).
               is_hrr m \<longrightarrow>
                 flag_set hrr_flag
                   (fst (server_run select hrr_flag inputs (initial_context flags)))
                 \<and> flag_set hrr_flag
                     (fst (server_run select hrr_flag (inputs @ later) (initial_context flags))))
         \<and> (state c = EXPECT_SERVER_HELLO \<longrightarrow>
               flag_set hrr_flag
                 (fst (client_step hrr_flag (Recv_From_Server (Hello_Retry_Request gid)) c)))
         \<and> (flag_set hrr_flag c \<longrightarrow>
               flag_set hrr_flag (fst (client_run hrr_flag client_inputs c)))"
proof -
  from assms(1) obtain w n where
    hs: "pq_handshake lib cpol spol ekg ec True lp = Some w"
    and "check_secrets lib w = Some n"
    by (rule test_success)
  from hs obtain w1 where w1: "client_hello_flight lib cpol spol = Some w1"
    and flight: "server_hello_flight lib True w1 = Some w"
    by (rule pq_handshake_success)
  from server_hello_flight_retry [OF flight] w1 have peers: "\<exists>w1 w2 w3 w4 w5 w6.
            client_hello_flight lib cpol spol = Some w1
            \<and> s2n_conn_set_handshake_type lib S2N_SERVER w1 = Some w2
            \<and> s2n_handshake_type_check_tls13_flag lib (server_conn w2) (HELLO_RETRY_REQUEST lib)
            \<and> s2n_handshake_write_io lib S2N_SERVER w2 = Some w3
            \<and> s2n_handshake_write_io lib S2N_SERVER w3 = Some w4
            \<and> s2n_handshake_read_io lib S2N_CLIENT w4 = Some w5
            \<and> s2n_conn_set_handshake_type lib S2N_CLIENT w5 = Some w6
            \<and> handshake_type (client_conn w6) AND HELLO_RETRY_REQUEST lib \<noteq> 0"
    by blast
  let ?run = "server_run select hrr_flag inputs (initial_context flags)"
  have once: "length (filter is_hrr (snd ?run)) \<le> 1"
    using server_run_hrr_count [OF assms(2), of select inputs "initial_context flags"]
    by (simp split: if_splits)
  have kept: "flag_set hrr_flag (fst ?run)
      \<and> flag_set hrr_flag
          (fst (server_run select hrr_flag (inputs @ later) (initial_context flags)))"
    if "m \<in> set (snd ?run)" and "is_hrr m" for m
  proof -
    from server_run_hrr_sets_flag [OF assms(2) that] have now: "flag_set hrr_flag (fst ?run)" .
    then have "flag_set hrr_flag (fst (server_run select hrr_flag later (fst ?run)))"
      by (rule server_run_keeps_flag)
    with now show ?thesis
      by (simp add: server_run_append case_prod_beta)
  qed
  have client_sets: "flag_set hrr_flag
      (fst (client_step hrr_flag (Recv_From_Server (Hello_Retry_Request gid)) c))"
    if "state c = EXPECT_SERVER_HELLO"
    using assms(2) that by (rule client_step_reads_hrr)
  have client_keeps: "flag_set hrr_flag (fst (client_run hrr_flag client_inputs c))"
    if "flag_set hrr_flag c"
    using that by (rule client_run_keeps_flag)
  from peers once kept client_sets client_keeps show ?thesis
    by blast
qed

theorem hello_retry_request_flag_kept_and_single_witness:
  "s2n_test_tls13_pq_handshake
       (scripted_handshake True draft0_rule (s2n_x25519_kyber_512_r3 sample_registry))
       (kyber_test_policy_draft0 sample_registry sample_ecc_tables)
       (kyber_test_policy_draft5 sample_registry sample_ecc_tables)
       (Some (s2n_x25519_kyber_512_r3 sample_registry)) None True True = Some ()
   \<and> snd (server_run sample_select 2 sample_retry_inputs (initial_context 0))
       = [Hello_Retry_Request 0x2F3D, Server_Hello 0x2F3D]
   \<and> length (filter is_hrr
         (snd (server_run sample_select 2 sample_retry_inputs (initial_context 0)))) \<le> 1
   \<and> flag_set 2 (fst (server_run sample_select 2 sample_retry_inputs (initial_context 0)))
   \<and> flag_set 2
       (fst (server_run sample_select 2 (sample_retry_inputs @ [Advance]) (initial_context 0)))
   \<and> flag_set 2
       (fst (client_step 2 (Recv_From_Server (Hello_Retry_Request 0x2F3D))
               (fst (client_step 2 Proceed (initial_client_context 0 0x2F39)))))"
proof -
  have run: "s2n_test_tls13_pq_handshake
       (scripted_handshake True draft0_rule (s2n_x25519_kyber_512_r3 sample_registry))
       (kyber_test_policy_draft0 sample_registry sample_ecc_tables)
       (kyber_test_policy_draft5 sample_registry sample_ecc_tables)
       (Some (s2n_x25519_kyber_512_r3 sample_registry)) None True True = Some ()"
    by code_simp
  have bit: "(2 :: 32 word) \<noteq> 0"
    by simp
  have outs: "snd (server_run sample_select 2 sample_retry_inputs (initial_context 0))
       = [Hello_Retry_Request 0x2F3D, Server_Hello 0x2F3D]"
    by code_simp
  have waiting: "state (fst (client_step 2 Proceed (initial_client_context 0 0x2F39)))
      = EXPECT_SERVER_HELLO"
    by (simp add: client_step.simps initial_client_context_def)
  note inst = hello_retry_request_flag_kept_and_single
    [OF run bit, of sample_select sample_retry_inputs 0 "[Advance]"
       "fst (client_step 2 Proceed (initial_client_context 0 0x2F39))" "0x2F3D"]
  from inst waiting have client: "flag_set 2
       (fst (client_step 2 (Recv_From_Server (Hello_Retry_Request 0x2F3D))
               (fst (client_step 2 Proceed (initial_client_context 0 0x2F39)))))"
    by blast
  from inst have once: "length (filter is_hrr
         (snd (server_run sample_select 2 sample_retry_inputs (initial_context 0)))) \<le> 1"
    by simp
  from inst have "\<forall>m \<in> set [Hello_Retry_Request 0x2F3D, Server_Hello 0x2F3D].
      is_hrr m \<longrightarrow>
        flag_set 2 (fst (server_run sample_select 2 sample_retry_inputs (initial_context 0)))
        \<and> flag_set 2 (fst (server_run sample_select 2 (sample_retry_inputs @ [Advance])
                             (initial_context 0)))"
    unfolding outs by blast
  then have "flag_set 2 (fst (server_run sample_select 2 sample_retry_inputs (initial_context 0)))
        \<and> flag_set 2 (fst (server_run sample_select 2 (sample_retry_inputs @ [Advance])
                             (initial_context 0)))"
    by simp
  with run outs once client show ?thesis
    by simp
qed


end
